theory Spec2Isabelle
  imports Main
begin

section \<open>JSON values, JavaScript truthiness, and the shared helpers\<close>

text \<open>
  Both servers of the repository (the file-backed server and the serverless handler
  \<^verbatim>\<open>api/index.js\<close> over PostgreSQL) read JSON request bodies and answer with a
  status code and a JSON object. A parsed JSON value is a \<open>json\<close>; a JavaScript
  object that came out of \<^verbatim>\<open>JSON.parse\<close> is a finite map from property names to
  values, and reading a property that is absent gives \<^verbatim>\<open>undefined\<close>, here \<open>None\<close>.
  JSON numbers are kept as integers: the handlers only test them for truthiness.
  Strings are sequences of code units, and a \<open>char\<close> of the model is a code unit below
  256: text outside Latin-1 is not represented.
\<close>

datatype json =
    JNull
  | JBool bool
  | JNum int
  | JStr string
  | JArr "json list"
  | JObj "(string \<times> json) list"

type_synonym obj = "string \<rightharpoonup> json"

text \<open>\<^verbatim>\<open>if (v)\<close>, \<^verbatim>\<open>!v\<close>, \<^verbatim>\<open>v || w\<close> and \<^verbatim>\<open>filter(Boolean)\<close>: the falsy values
  are \<^verbatim>\<open>undefined\<close>, \<^verbatim>\<open>null\<close>, \<^verbatim>\<open>false\<close>, \<^verbatim>\<open>0\<close> and the empty string.\<close>

fun truthy :: "json option \<Rightarrow> bool" where
  "truthy None = False"
| "truthy (Some JNull) = False"
| "truthy (Some (JBool b)) = b"
| "truthy (Some (JNum n)) = (n \<noteq> 0)"
| "truthy (Some (JStr s)) = (s \<noteq> [])"
| "truthy (Some (JArr xs)) = True"
| "truthy (Some (JObj kvs)) = True"

text \<open>The values a request draws from its environment: \<^verbatim>\<open>Date.now()\<close>,
  \<^verbatim>\<open>new Date().toISOString()\<close>, \<^verbatim>\<open>crypto.randomBytes(n).toString('hex')\<close>,
  \<^verbatim>\<open>crypto.randomUUID()\<close> (or the database's \<^verbatim>\<open>gen_random_uuid()\<close>), and the
  database's \<^verbatim>\<open>CURRENT_TIMESTAMP\<close>.\<close>

record env =
  now_ms :: nat
  now_iso :: string
  rnd_hex :: string
  rnd_uuid :: string
  db_now :: nat

text \<open>\<^verbatim>\<open>crypto.pbkdf2Sync(password, salt, iterations, 32, 'sha256')\<close> rendered in
  hexadecimal is a function of Node's runtime, not of this repository: the model takes it
  as a parameter \<open>pbkdf2\<close>. \<^verbatim>\<open>timingSafeEqual\<close> on the two decoded keys is equality of
  the two hexadecimal strings.\<close>

type_synonym kdf = "string \<Rightarrow> string \<Rightarrow> nat \<Rightarrow> string"

definition hashPassword :: "kdf \<Rightarrow> string \<Rightarrow> string \<Rightarrow> nat \<Rightarrow> string" where
  "hashPassword pbkdf2 password salt iterations = pbkdf2 password salt iterations"

definition verifyPassword :: "kdf \<Rightarrow> string \<Rightarrow> string \<Rightarrow> nat \<Rightarrow> string \<Rightarrow> bool" where
  "verifyPassword pbkdf2 password salt iterations expectedHex =
     (hashPassword pbkdf2 password salt iterations = expectedHex)"

definition user_char :: "char \<Rightarrow> bool" where
  "user_char c =
     (c \<in> set ''abcdefghijklmnopqrstuvwxyzABCDEFGHIJKLMNOPQRSTUVWXYZ0123456789._-'')"

text \<open>\<^verbatim>\<open>/^[a-zA-Z0-9._-]{3,32}$/.test(u)\<close> and \<^verbatim>\<open>p.length >= 6\<close>. Usernames and
  passwords are strings in the model, so the \<^verbatim>\<open>typeof\<close> tests always pass.\<close>

definition isValidUser :: "string \<Rightarrow> bool" where
  "isValidUser u = (3 \<le> length u \<and> length u \<le> 32 \<and> list_all user_char u)"

definition isValidPassword :: "string \<Rightarrow> bool" where
  "isValidPassword p = (6 \<le> length p)"

subsection \<open>Sessions\<close>

record session =
  sess_username :: string
  sess_expires :: nat

type_synonym sessions = "string \<rightharpoonup> session"

definition TOKEN_TTL_MS :: nat where
  "TOKEN_TTL_MS = 24 * 60 * 60 * 1000"

text \<open>The bearer token of an \<^verbatim>\<open>Authorization\<close> header (the empty string when the
  header is absent): \<^verbatim>\<open>auth.startsWith('Bearer ') ? auth.slice(7) : null\<close>, and an
  empty token is falsy.\<close>

definition bearer :: "string \<Rightarrow> string option" where
  "bearer auth =
     (if take 7 auth = ''Bearer '' then
        (if drop 7 auth = [] then None else Some (drop 7 auth))
      else None)"

text \<open>\<open>getAuth\<close> is the same function in both servers. It returns the identity and
  the session map, from which an expired entry has been deleted.\<close>

definition getAuth :: "sessions \<Rightarrow> string \<Rightarrow> nat \<Rightarrow> string option \<times> sessions" where
  "getAuth sessions auth now =
     (case bearer auth of
        None \<Rightarrow> (None, sessions)
      | Some token \<Rightarrow>
          (case sessions token of
             None \<Rightarrow> (None, sessions)
           | Some sess \<Rightarrow>
               if sess_expires sess < now then (None, sessions(token := None))
               else (Some (sess_username sess), sessions)))"

subsection \<open>Requests and responses\<close>

text \<open>Routing and framing are outside the model: a request is one of the routes, with
  its \<^verbatim>\<open>Authorization\<close> header, the last path segment where the route has one (as
  it was sent for an entry id, percent-decoded for a category, a segment that
  \<^verbatim>\<open>decodeURIComponent\<close> accepts), and
  the parsed body (\<open>None\<close> when the body is empty, is not JSON or is \<^verbatim>\<open>null\<close>;
  a body that is JSON and no object, such as a number or an array, is not represented).
  The body type is a parameter: the file-backed server works on any JSON object, the
  relational one hands the fields to typed columns.\<close>

datatype 'b request =
    Register string string
  | Login string string
  | Me string
  | ListEntries string
  | ListCategories string
  | AddCategory string "json option"
  | DeleteCategory string string
  | AddEntry string "'b option"
  | UpdateEntry string string "'b option"
  | DeleteEntry string string
  | Export string

datatype 'e body =
    BError string
  | BOk
  | BSession string string
  | BMe string
  | BEntries "'e list"
  | BEntry 'e
  | BCategories "json list"
  | BCategory json
  | BExport string string "'e list"

type_synonym 'e response = "nat \<times> 'e body"

text \<open>\<^verbatim>\<open>!category || typeof category !== 'string' || category.trim() === ''\<close>, the
  test of \<^verbatim>\<open>POST /api/categories\<close> in both servers. \<open>ws_char\<close> lists the white
  space and line terminators that \<^verbatim>\<open>trim\<close> removes, as far as a \<open>char\<close> reaches:
  the tab, line feed, vertical tab, form feed, carriage return, the space and the
  no-break space U+00A0.\<close>

definition ws_char :: "char \<Rightarrow> bool" where
  "ws_char c = (of_char c \<in> {9, 10, 11, 12, 13, 32, 160 :: nat})"

fun valid_category :: "json option \<Rightarrow> bool" where
  "valid_category (Some (JStr s)) = (\<not> list_all ws_char s)"
| "valid_category _ = False"

section \<open>The file-backed server\<close>

text \<open>
  \<^verbatim>\<open>data/users.json\<close> holds one object keyed by username, \<^verbatim>\<open>data/vault/<username>.json\<close>
  holds the array of a user's entries, and the sessions live in a \<^verbatim>\<open>Map\<close> of the
  process. A vault file that does not exist yet is \<open>None\<close>; \<open>ensureUserVault\<close> creates it.
  File names are taken as case sensitive, so distinct usernames name distinct files.
\<close>

record urec =
  u_salt :: string
  u_hash :: string
  u_iterations :: nat
  u_createdAt :: string

record fstate =
  f_users :: "string \<rightharpoonup> urec"
  f_vaults :: "string \<rightharpoonup> obj list"
  f_sessions :: sessions

text \<open>\<open>loadUsers()\<close> parses the file into a plain object, and \<^verbatim>\<open>users[username]\<close> is
  a property read on it: a name that the file does not hold is looked up on
  \<^verbatim>\<open>Object.prototype\<close>, whose properties are all functions or objects, hence truthy,
  and carry no \<^verbatim>\<open>salt\<close>, \<^verbatim>\<open>hash\<close> or \<^verbatim>\<open>iterations\<close>.\<close>

definition object_prototype_keys :: "string list" where
  "object_prototype_keys =
     [''constructor'', ''hasOwnProperty'', ''isPrototypeOf'', ''propertyIsEnumerable'',
      ''toLocaleString'', ''toString'', ''valueOf'', ''__proto__'', ''__defineGetter__'',
      ''__defineSetter__'', ''__lookupGetter__'', ''__lookupSetter__'']"

datatype user_prop = Own urec | Inherited | Undefined

definition users_get :: "(string \<rightharpoonup> urec) \<Rightarrow> string \<Rightarrow> user_prop" where
  "users_get users username =
     (case users username of
        Some urec \<Rightarrow> Own urec
      | None \<Rightarrow> if username \<in> set object_prototype_keys then Inherited else Undefined)"

definition ensureUserVault :: "(string \<rightharpoonup> obj list) \<Rightarrow> string \<Rightarrow> (string \<rightharpoonup> obj list)" where
  "ensureUserVault vaults username =
     (case vaults username of None \<Rightarrow> vaults(username \<mapsto> []) | Some es \<Rightarrow> vaults)"

definition loadEntries :: "(string \<rightharpoonup> obj list) \<Rightarrow> string \<Rightarrow> obj list \<times> (string \<rightharpoonup> obj list)" where
  "loadEntries vaults username =
     (case vaults username of
        None \<Rightarrow> ([], vaults(username \<mapsto> []))
      | Some es \<Rightarrow> (es, vaults))"

definition saveEntries :: "(string \<rightharpoonup> obj list) \<Rightarrow> string \<Rightarrow> obj list \<Rightarrow> (string \<rightharpoonup> obj list)" where
  "saveEntries vaults username entries = vaults(username \<mapsto> entries)"

text \<open>\<^verbatim>\<open>[...new Set(entries.map(e => e.category).filter(Boolean))]\<close>: a \<^verbatim>\<open>Set\<close> keeps
  the first occurrence of each primitive value; two arrays or objects parsed from the
  file are never the same object, so they are all kept.\<close>

fun is_primitive :: "json \<Rightarrow> bool" where
  "is_primitive (JArr xs) = False"
| "is_primitive (JObj kvs) = False"
| "is_primitive v = True"

fun set_values :: "json list \<Rightarrow> json list \<Rightarrow> json list" where
  "set_values seen [] = []"
| "set_values seen (v # vs) =
     (if is_primitive v \<and> v \<in> set seen then set_values seen vs
      else v # set_values (v # seen) vs)"

fun values_of :: "json option list \<Rightarrow> json list" where
  "values_of [] = []"
| "values_of (None # vs) = values_of vs"
| "values_of (Some v # vs) = v # values_of vs"

definition file_categories :: "obj list \<Rightarrow> json list" where
  "file_categories entries =
     set_values [] (values_of (filter truthy (map (\<lambda>e. e ''category'') entries)))"

subsection \<open>The handlers of the file-backed server\<close>

definition f_register :: "kdf \<Rightarrow> env \<Rightarrow> fstate \<Rightarrow> string \<Rightarrow> string \<Rightarrow> obj response \<times> fstate" where
  "f_register pbkdf2 ev s username password =
     (if isValidUser username \<and> isValidPassword password then
        (case users_get (f_users s) username of
           Undefined \<Rightarrow>
             (let salt = rnd_hex ev;
                  iterations = 120000;
                  hash = hashPassword pbkdf2 password salt iterations;
                  users = (f_users s)(username \<mapsto>
                    \<lparr>u_salt = salt, u_hash = hash, u_iterations = iterations,
                     u_createdAt = now_iso ev\<rparr>)
              in ((201, BOk),
                  s\<lparr>f_users := users, f_vaults := ensureUserVault (f_vaults s) username\<rparr>))
         | Own urec \<Rightarrow> ((409, BError ''User exists''), s)
         | Inherited \<Rightarrow> ((409, BError ''User exists''), s))
      else ((400, BError ''Invalid username or password''), s))"

text \<open>For an inherited property \<^verbatim>\<open>urec.salt\<close> is \<^verbatim>\<open>undefined\<close>, \<^verbatim>\<open>pbkdf2Sync\<close>
  throws a \<^verbatim>\<open>TypeError\<close>, and the handler's \<^verbatim>\<open>catch\<close> answers 500.\<close>

definition f_login :: "kdf \<Rightarrow> env \<Rightarrow> fstate \<Rightarrow> string \<Rightarrow> string \<Rightarrow> obj response \<times> fstate" where
  "f_login pbkdf2 ev s username password =
     (case users_get (f_users s) username of
        Undefined \<Rightarrow> ((401, BError ''Invalid credentials''), s)
      | Inherited \<Rightarrow> ((500, BError ''Server error''), s)
      | Own urec \<Rightarrow>
          if verifyPassword pbkdf2 password (u_salt urec) (u_iterations urec) (u_hash urec) then
            (let token = rnd_hex ev in
             ((200, BSession token username),
              s\<lparr>f_sessions := (f_sessions s)(token \<mapsto>
                   \<lparr>sess_username = username, sess_expires = now_ms ev + TOKEN_TTL_MS\<rparr>)\<rparr>))
          else ((401, BError ''Invalid credentials''), s))"

definition f_me :: "env \<Rightarrow> fstate \<Rightarrow> string \<Rightarrow> obj response \<times> fstate" where
  "f_me ev s auth =
     (case getAuth (f_sessions s) auth (now_ms ev) of
        (None, ss) \<Rightarrow> ((401, BError ''Unauthorized''), s\<lparr>f_sessions := ss\<rparr>)
      | (Some user, ss) \<Rightarrow> ((200, BMe user), s\<lparr>f_sessions := ss\<rparr>))"

definition f_listEntries :: "env \<Rightarrow> fstate \<Rightarrow> string \<Rightarrow> obj response \<times> fstate" where
  "f_listEntries ev s auth =
     (case getAuth (f_sessions s) auth (now_ms ev) of
        (None, ss) \<Rightarrow> ((401, BError ''Unauthorized''), s\<lparr>f_sessions := ss\<rparr>)
      | (Some user, ss) \<Rightarrow>
          (case loadEntries (f_vaults s) user of
             (entries, vs) \<Rightarrow>
               ((200, BEntries entries), s\<lparr>f_vaults := vs, f_sessions := ss\<rparr>)))"

definition f_listCategories :: "env \<Rightarrow> fstate \<Rightarrow> string \<Rightarrow> obj response \<times> fstate" where
  "f_listCategories ev s auth =
     (case getAuth (f_sessions s) auth (now_ms ev) of
        (None, ss) \<Rightarrow> ((401, BError ''Unauthorized''), s\<lparr>f_sessions := ss\<rparr>)
      | (Some user, ss) \<Rightarrow>
          (case loadEntries (f_vaults s) user of
             (entries, vs) \<Rightarrow>
               ((200, BCategories (file_categories entries)),
                s\<lparr>f_vaults := vs, f_sessions := ss\<rparr>)))"

definition f_addCategory :: "env \<Rightarrow> fstate \<Rightarrow> string \<Rightarrow> json option \<Rightarrow> obj response \<times> fstate" where
  "f_addCategory ev s auth category =
     (case getAuth (f_sessions s) auth (now_ms ev) of
        (None, ss) \<Rightarrow> ((401, BError ''Unauthorized''), s\<lparr>f_sessions := ss\<rparr>)
      | (Some user, ss) \<Rightarrow>
          if valid_category category then
            (case loadEntries (f_vaults s) user of
               (entries, vs) \<Rightarrow>
                 ((201, BCategory (the category)), s\<lparr>f_vaults := vs, f_sessions := ss\<rparr>))
          else ((400, BError ''Invalid category''), s\<lparr>f_sessions := ss\<rparr>))"

text \<open>\<^verbatim>\<open>{ ...e, category: undefined, updatedAt: now }\<close> written with
  \<^verbatim>\<open>JSON.stringify\<close>, which leaves out a property whose value is \<^verbatim>\<open>undefined\<close>.\<close>

definition f_clear_category :: "string \<Rightarrow> string \<Rightarrow> obj \<Rightarrow> obj" where
  "f_clear_category categoryToDelete now e =
     (if e ''category'' = Some (JStr categoryToDelete)
      then e(''category'' := None, ''updatedAt'' \<mapsto> JStr now)
      else e)"

definition f_deleteCategory :: "env \<Rightarrow> fstate \<Rightarrow> string \<Rightarrow> string \<Rightarrow> obj response \<times> fstate" where
  "f_deleteCategory ev s auth categoryToDelete =
     (case getAuth (f_sessions s) auth (now_ms ev) of
        (None, ss) \<Rightarrow> ((401, BError ''Unauthorized''), s\<lparr>f_sessions := ss\<rparr>)
      | (Some user, ss) \<Rightarrow>
          (case loadEntries (f_vaults s) user of
             (entries, vs) \<Rightarrow>
               (let updatedEntries = map (f_clear_category categoryToDelete (now_iso ev)) entries
                in ((200, BOk),
                    s\<lparr>f_vaults := saveEntries vs user updatedEntries, f_sessions := ss\<rparr>))))"

text \<open>A missing body is \<^verbatim>\<open>body || {}\<close>, the empty object.\<close>

definition body_or_empty :: "obj option \<Rightarrow> obj" where
  "body_or_empty body = (case body of None \<Rightarrow> Map.empty | Some b \<Rightarrow> b)"

text \<open>The entry that \<^verbatim>\<open>POST /api/entries\<close> builds. \<^verbatim>\<open>tags = []\<close> is the default of
  the destructuring, used when the body has no \<^verbatim>\<open>tags\<close>; a property whose value is
  \<^verbatim>\<open>undefined\<close> (\<^verbatim>\<open>note\<close>, \<^verbatim>\<open>faviconUrl\<close>) is not written.\<close>

fun tags_or_empty :: "json option \<Rightarrow> json" where
  "tags_or_empty (Some (JArr xs)) = JArr xs"
| "tags_or_empty _ = JArr []"

definition f_new_entry :: "env \<Rightarrow> string \<Rightarrow> obj \<Rightarrow> obj" where
  "f_new_entry ev user b =
     [''id'' \<mapsto> JStr (rnd_uuid ev),
      ''url'' \<mapsto> the (b ''url''),
      ''username'' \<mapsto> the (b ''username''),
      ''owner'' \<mapsto> (if truthy (b ''owner'') then the (b ''owner'') else JStr user),
      ''tags'' \<mapsto> tags_or_empty (b ''tags''),
      ''passwordEncrypted'' \<mapsto> the (b ''passwordEncrypted''),
      ''createdAt'' \<mapsto> JStr (now_iso ev),
      ''updatedAt'' \<mapsto> JStr (now_iso ev)]
     (''note'' := b ''note'', ''faviconUrl'' := b ''faviconUrl'')"

definition f_addEntry :: "env \<Rightarrow> fstate \<Rightarrow> string \<Rightarrow> obj option \<Rightarrow> obj response \<times> fstate" where
  "f_addEntry ev s auth body =
     (case getAuth (f_sessions s) auth (now_ms ev) of
        (None, ss) \<Rightarrow> ((401, BError ''Unauthorized''), s\<lparr>f_sessions := ss\<rparr>)
      | (Some user, ss) \<Rightarrow>
          (let b = body_or_empty body in
           if truthy (b ''url'') \<and> truthy (b ''username'') \<and> truthy (b ''passwordEncrypted'') then
             (case loadEntries (f_vaults s) user of
                (entries, vs) \<Rightarrow>
                  (let entry = f_new_entry ev user b in
                   ((201, BEntry entry),
                    s\<lparr>f_vaults := saveEntries vs user (entry # entries), f_sessions := ss\<rparr>)))
           else ((400, BError ''Missing fields''), s\<lparr>f_sessions := ss\<rparr>)))"

text \<open>\<^verbatim>\<open>{ ...e, ...updates, updatedAt: now }\<close>: every property of the payload
  replaces the entry's, then \<^verbatim>\<open>updatedAt\<close> is set. Spreading \<^verbatim>\<open>null\<close> adds nothing.\<close>

definition f_merge :: "string \<Rightarrow> obj \<Rightarrow> obj \<Rightarrow> obj" where
  "f_merge now updates e = (e ++ updates)(''updatedAt'' \<mapsto> JStr now)"

definition f_updateEntry ::
  "env \<Rightarrow> fstate \<Rightarrow> string \<Rightarrow> string \<Rightarrow> obj option \<Rightarrow> obj response \<times> fstate" where
  "f_updateEntry ev s auth ident body =
     (case getAuth (f_sessions s) auth (now_ms ev) of
        (None, ss) \<Rightarrow> ((401, BError ''Unauthorized''), s\<lparr>f_sessions := ss\<rparr>)
      | (Some user, ss) \<Rightarrow>
          (case loadEntries (f_vaults s) user of
             (entries, vs) \<Rightarrow>
               (let updates = body_or_empty body;
                    hit = (\<lambda>e. e ''id'' = Some (JStr ident));
                    next = map (\<lambda>e. if hit e then f_merge (now_iso ev) updates e else e) entries;
                    s' = s\<lparr>f_vaults := saveEntries vs user next, f_sessions := ss\<rparr>
                in (case filter hit entries of
                      [] \<Rightarrow> ((404, BError ''Not found''), s')
                    | es \<Rightarrow> ((200, BEntry (f_merge (now_iso ev) updates (last es))), s')))))"

definition f_deleteEntry :: "env \<Rightarrow> fstate \<Rightarrow> string \<Rightarrow> string \<Rightarrow> obj response \<times> fstate" where
  "f_deleteEntry ev s auth ident =
     (case getAuth (f_sessions s) auth (now_ms ev) of
        (None, ss) \<Rightarrow> ((401, BError ''Unauthorized''), s\<lparr>f_sessions := ss\<rparr>)
      | (Some user, ss) \<Rightarrow>
          (case loadEntries (f_vaults s) user of
             (entries, vs) \<Rightarrow>
               (let next = filter (\<lambda>e. e ''id'' \<noteq> Some (JStr ident)) entries;
                    s' = s\<lparr>f_vaults := saveEntries vs user next, f_sessions := ss\<rparr>
                in if length next \<noteq> length entries then ((200, BOk), s')
                   else ((404, BError ''Not found''), s'))))"

definition f_export :: "env \<Rightarrow> fstate \<Rightarrow> string \<Rightarrow> obj response \<times> fstate" where
  "f_export ev s auth =
     (case getAuth (f_sessions s) auth (now_ms ev) of
        (None, ss) \<Rightarrow> ((401, BError ''Unauthorized''), s\<lparr>f_sessions := ss\<rparr>)
      | (Some user, ss) \<Rightarrow>
          (case loadEntries (f_vaults s) user of
             (entries, vs) \<Rightarrow>
               ((200, BExport user (now_iso ev) entries),
                s\<lparr>f_vaults := vs, f_sessions := ss\<rparr>)))"

fun f_handle :: "kdf \<Rightarrow> env \<Rightarrow> fstate \<Rightarrow> obj request \<Rightarrow> obj response \<times> fstate" where
  "f_handle k ev s (Register u p) = f_register k ev s u p"
| "f_handle k ev s (Login u p) = f_login k ev s u p"
| "f_handle k ev s (Me a) = f_me ev s a"
| "f_handle k ev s (ListEntries a) = f_listEntries ev s a"
| "f_handle k ev s (ListCategories a) = f_listCategories ev s a"
| "f_handle k ev s (AddCategory a c) = f_addCategory ev s a c"
| "f_handle k ev s (DeleteCategory a c) = f_deleteCategory ev s a c"
| "f_handle k ev s (AddEntry a b) = f_addEntry ev s a b"
| "f_handle k ev s (UpdateEntry a i b) = f_updateEntry ev s a i b"
| "f_handle k ev s (DeleteEntry a i) = f_deleteEntry ev s a i"
| "f_handle k ev s (Export a) = f_export ev s a"

text \<open>A run serves the requests one after the other, each with the values its
  environment hands it, and collects the responses.\<close>

fun f_run :: "kdf \<Rightarrow> fstate \<Rightarrow> (env \<times> obj request) list \<Rightarrow> obj response list \<times> fstate" where
  "f_run k s [] = ([], s)"
| "f_run k s ((ev, r) # rs) =
     (case f_handle k ev s r of
        (resp, s') \<Rightarrow> (case f_run k s' rs of (resps, s'') \<Rightarrow> (resp # resps, s'')))"

section \<open>The relational server\<close>

text \<open>
  \<^verbatim>\<open>api/index.js\<close> keeps users and entries in two PostgreSQL tables and the sessions in
  a \<^verbatim>\<open>Map\<close> of the process. The columns are typed, and the driver renders a parameter
  that is not a string as text before the database sees it; that rendering is not part of
  the repository, so a body of this server is a record of the fields the handlers read,
  each absent (or \<^verbatim>\<open>null\<close>) or a JSON string, and \<^verbatim>\<open>tags\<close> absent, \<^verbatim>\<open>null\<close> or
  an array of strings. Failures of the connection are not modelled. The database
  refuses a query, and the handler's \<^verbatim>\<open>catch\<close> then answers 500 \<open>Database error\<close>
  with no row changed, when a text parameter holds the character U+0000, when the text
  given for the \<^verbatim>\<open>id\<close> column does not denote a UUID, and when an insert breaks the
  foreign key or the primary key. The usernames in \<^verbatim>\<open>users\<close> are at most 32 characters
  long, so an owner that passes the foreign key fits its \<^verbatim>\<open>VARCHAR(32)\<close> column.
\<close>

definition pg_text :: "string \<Rightarrow> bool" where
  "pg_text s = (CHR 0x00 \<notin> set s)"

text \<open>The column \<^verbatim>\<open>id\<close> has the type \<^verbatim>\<open>UUID\<close>. The database reads the text of a
  parameter for it as 32 hexadecimal digits in either case, with an optional hyphen after
  each group of four digits but the last and optionally in braces, and prints a UUID in
  lower case in the groups 8-4-4-4-12. \<open>uuid_in\<close> gives the printed form of the UUID that
  a text denotes, and \<open>None\<close> for a text that denotes none. The ids of the rows are in
  printed form: the column's default \<^verbatim>\<open>gen_random_uuid()\<close> is \<open>rnd_uuid\<close> of the
  environment.\<close>

definition lower_hex :: "char \<Rightarrow> char option" where
  "lower_hex c =
     (if c \<in> set ''0123456789abcdef'' then Some c
      else map_of (zip ''ABCDEF'' ''abcdef'') c)"

fun hex4 :: "string \<Rightarrow> (string \<times> string) option" where
  "hex4 (a # b # c # d # src) =
     (case (lower_hex a, lower_hex b, lower_hex c, lower_hex d) of
        (Some w, Some x, Some y, Some z) \<Rightarrow> Some ([w, x, y, z], src)
      | _ \<Rightarrow> None)"
| "hex4 src = None"

fun uuid_groups :: "nat \<Rightarrow> string \<Rightarrow> (string \<times> string) option" where
  "uuid_groups 0 src = Some ([], src)"
| "uuid_groups (Suc n) src =
     (case hex4 src of
        None \<Rightarrow> None
      | Some (g, rest) \<Rightarrow>
          (case uuid_groups n (if 0 < n \<and> take 1 rest = ''-'' then drop 1 rest else rest) of
             None \<Rightarrow> None
           | Some (ds, rest') \<Rightarrow> Some (g @ ds, rest')))"

definition uuid_out :: "string \<Rightarrow> string" where
  "uuid_out ds =
     take 8 ds @ ''-'' @ take 4 (drop 8 ds) @ ''-'' @ take 4 (drop 12 ds) @ ''-''
     @ take 4 (drop 16 ds) @ ''-'' @ drop 20 ds"

definition uuid_in :: "string \<Rightarrow> string option" where
  "uuid_in source =
     (let braces = (take 1 source = ''{'');
          src = (if braces then drop 1 source else source)
      in case uuid_groups 8 src of
           None \<Rightarrow> None
         | Some (ds, rest) \<Rightarrow>
             if rest = (if braces then ''}'' else []) then Some (uuid_out ds) else None)"

datatype tagsv = TagsAbsent | TagsNull | TagsArr "string list"

record rbody =
  b_url :: "string option"
  b_username :: "string option"
  b_owner :: "string option"
  b_tags :: tagsv
  b_note :: "string option"
  b_passwordEncrypted :: "string option"
  b_faviconUrl :: "string option"

definition truthy_text :: "string option \<Rightarrow> bool" where
  "truthy_text v = (case v of None \<Rightarrow> False | Some s \<Rightarrow> s \<noteq> [])"

fun truthy_tags :: "tagsv \<Rightarrow> bool" where
  "truthy_tags (TagsArr xs) = True"
| "truthy_tags _ = False"

text \<open>The same body as the JSON object the file-backed server would parse.\<close>

definition text_field :: "string option \<Rightarrow> json option" where
  "text_field v = map_option JStr v"

fun tags_field :: "tagsv \<Rightarrow> json option" where
  "tags_field TagsAbsent = None"
| "tags_field TagsNull = Some JNull"
| "tags_field (TagsArr xs) = Some (JArr (map JStr xs))"

definition to_obj :: "rbody \<Rightarrow> obj" where
  "to_obj b =
     Map.empty(''url'' := text_field (b_url b), ''username'' := text_field (b_username b),
       ''owner'' := text_field (b_owner b), ''tags'' := tags_field (b_tags b),
       ''note'' := text_field (b_note b),
       ''passwordEncrypted'' := text_field (b_passwordEncrypted b),
       ''faviconUrl'' := text_field (b_faviconUrl b))"

text \<open>Table \<^verbatim>\<open>users\<close> (primary key \<^verbatim>\<open>username\<close>) and table \<^verbatim>\<open>password_entries\<close>
  (primary key \<^verbatim>\<open>id\<close>, \<^verbatim>\<open>owner\<close> references \<^verbatim>\<open>users\<close>; \<^verbatim>\<open>favicon_url\<close>,
  \<^verbatim>\<open>note\<close> and \<^verbatim>\<open>tags\<close> may be \<^verbatim>\<open>NULL\<close>). The handlers answer with the row's
  columns under the names \<^verbatim>\<open>id, url, username, owner, passwordEncrypted, faviconUrl,
  note, tags, createdAt, updatedAt\<close>; the model answers with the row.\<close>

record urow =
  d_salt :: string
  d_hash :: string
  d_iterations :: nat
  d_created_at :: nat

record row =
  r_id :: string
  r_owner :: string
  r_url :: string
  r_username :: string
  r_password_encrypted :: string
  r_favicon_url :: "string option"
  r_note :: "string option"
  r_tags :: "string list option"
  r_created_at :: nat
  r_updated_at :: nat

record db =
  db_users :: "string \<rightharpoonup> urow"
  db_entries :: "row list"

text \<open>\<open>r_pool\<close> is \<open>None\<close> when no connection string is configured
  (\<^verbatim>\<open>pool = null\<close>).\<close>

record rstate =
  r_pool :: "db option"
  r_sessions :: sessions

definition no_pool :: "row response" where
  "no_pool = (500, BError ''Database connection not available'')"

definition db_error :: "row response" where
  "db_error = (500, BError ''Database error'')"

definition r_register :: "kdf \<Rightarrow> env \<Rightarrow> rstate \<Rightarrow> string \<Rightarrow> string \<Rightarrow> row response \<times> rstate" where
  "r_register pbkdf2 ev s username password =
     (if isValidUser username \<and> isValidPassword password then
        (case r_pool s of
           None \<Rightarrow> (no_pool, s)
         | Some d \<Rightarrow>
             (case db_users d username of
                Some urec \<Rightarrow> ((409, BError ''User exists''), s)
              | None \<Rightarrow>
                  (let salt = rnd_hex ev;
                       iterations = 120000;
                       hash = hashPassword pbkdf2 password salt iterations;
                       users = (db_users d)(username \<mapsto>
                         \<lparr>d_salt = salt, d_hash = hash, d_iterations = iterations,
                          d_created_at = db_now ev\<rparr>)
                   in ((201, BOk), s\<lparr>r_pool := Some (d\<lparr>db_users := users\<rparr>)\<rparr>))))
      else ((400, BError ''Invalid username or password''), s))"

text \<open>\<^verbatim>\<open>POST /api/login\<close> hands the body's username to the query as it is.\<close>

definition r_login :: "kdf \<Rightarrow> env \<Rightarrow> rstate \<Rightarrow> string \<Rightarrow> string \<Rightarrow> row response \<times> rstate" where
  "r_login pbkdf2 ev s username password =
     (case r_pool s of
        None \<Rightarrow> (no_pool, s)
      | Some d \<Rightarrow>
          if pg_text username then
            (case db_users d username of
               None \<Rightarrow> ((401, BError ''Invalid credentials''), s)
             | Some urec \<Rightarrow>
                 if verifyPassword pbkdf2 password (d_salt urec) (d_iterations urec) (d_hash urec)
                 then
                   (let token = rnd_hex ev in
                    ((200, BSession token username),
                     s\<lparr>r_sessions := (r_sessions s)(token \<mapsto>
                          \<lparr>sess_username = username, sess_expires = now_ms ev + TOKEN_TTL_MS\<rparr>)\<rparr>))
                 else ((401, BError ''Invalid credentials''), s))
          else (db_error, s))"

definition r_me :: "env \<Rightarrow> rstate \<Rightarrow> string \<Rightarrow> row response \<times> rstate" where
  "r_me ev s auth =
     (case getAuth (r_sessions s) auth (now_ms ev) of
        (None, ss) \<Rightarrow> ((401, BError ''Unauthorized''), s\<lparr>r_sessions := ss\<rparr>)
      | (Some user, ss) \<Rightarrow> ((200, BMe user), s\<lparr>r_sessions := ss\<rparr>))"

text \<open>\<^verbatim>\<open>WHERE owner = $1 ORDER BY created_at DESC\<close>. SQL leaves the order of rows with
  equal \<^verbatim>\<open>created_at\<close> open; the model takes the later row of the table first.\<close>

definition owned :: "string \<Rightarrow> row list \<Rightarrow> row list" where
  "owned user rows = filter (\<lambda>r. r_owner r = user) rows"

definition newest_first :: "row list \<Rightarrow> row list" where
  "newest_first rows = rev (sort_key r_created_at rows)"

definition r_listEntries :: "env \<Rightarrow> rstate \<Rightarrow> string \<Rightarrow> row response \<times> rstate" where
  "r_listEntries ev s auth =
     (case getAuth (r_sessions s) auth (now_ms ev) of
        (None, ss) \<Rightarrow> ((401, BError ''Unauthorized''), s\<lparr>r_sessions := ss\<rparr>)
      | (Some user, ss) \<Rightarrow>
          (case r_pool s of
             None \<Rightarrow> (no_pool, s\<lparr>r_sessions := ss\<rparr>)
           | Some d \<Rightarrow>
               ((200, BEntries (newest_first (owned user (db_entries d)))),
                s\<lparr>r_sessions := ss\<rparr>)))"

text \<open>\<^verbatim>\<open>INSERT INTO password_entries (owner, url, ...) VALUES ($1, ...)\<close> with
  \<^verbatim>\<open>owner || auth.username\<close> as the owner. The insert fails on a parameter with the
  character U+0000, on an owner that is not a row of \<^verbatim>\<open>users\<close> (the foreign key) and
  on an id that a row already has (the primary key); the handler's \<^verbatim>\<open>catch\<close> answers
  500.\<close>

definition opt_text :: "string option \<Rightarrow> string list" where
  "opt_text v = (case v of None \<Rightarrow> [] | Some s \<Rightarrow> [s])"

fun tags_text :: "tagsv \<Rightarrow> string list" where
  "tags_text (TagsArr xs) = xs"
| "tags_text _ = []"

definition insert_params :: "string \<Rightarrow> rbody \<Rightarrow> string list" where
  "insert_params owner b =
     owner # opt_text (b_url b) @ opt_text (b_username b) @ opt_text (b_passwordEncrypted b)
     @ opt_text (b_faviconUrl b) @ opt_text (b_note b) @ tags_text (b_tags b)"

fun tags_param :: "tagsv \<Rightarrow> string list option" where
  "tags_param TagsAbsent = Some []"
| "tags_param TagsNull = None"
| "tags_param (TagsArr xs) = Some xs"

definition r_new_row :: "env \<Rightarrow> string \<Rightarrow> rbody \<Rightarrow> row" where
  "r_new_row ev user b =
     \<lparr>r_id = rnd_uuid ev,
      r_owner = (if truthy_text (b_owner b) then the (b_owner b) else user),
      r_url = the (b_url b),
      r_username = the (b_username b),
      r_password_encrypted = the (b_passwordEncrypted b),
      r_favicon_url = b_faviconUrl b,
      r_note = b_note b,
      r_tags = tags_param (b_tags b),
      r_created_at = db_now ev,
      r_updated_at = db_now ev\<rparr>"

definition r_addEntry :: "env \<Rightarrow> rstate \<Rightarrow> string \<Rightarrow> rbody option \<Rightarrow> row response \<times> rstate" where
  "r_addEntry ev s auth body =
     (case getAuth (r_sessions s) auth (now_ms ev) of
        (None, ss) \<Rightarrow> ((401, BError ''Unauthorized''), s\<lparr>r_sessions := ss\<rparr>)
      | (Some user, ss) \<Rightarrow>
          (case body of
             None \<Rightarrow> ((400, BError ''Missing fields''), s\<lparr>r_sessions := ss\<rparr>)
           | Some b \<Rightarrow>
               if truthy_text (b_url b) \<and> truthy_text (b_username b)
                  \<and> truthy_text (b_passwordEncrypted b) then
                 (case r_pool s of
                    None \<Rightarrow> (no_pool, s\<lparr>r_sessions := ss\<rparr>)
                  | Some d \<Rightarrow>
                      (let inserted = r_new_row ev user b in
                       if list_all pg_text (insert_params (r_owner inserted) b)
                          \<and> r_owner inserted \<in> dom (db_users d)
                          \<and> r_id inserted \<notin> set (map r_id (db_entries d)) then
                         ((201, BEntry inserted),
                          s\<lparr>r_pool := Some (d\<lparr>db_entries := db_entries d @ [inserted]\<rparr>),
                            r_sessions := ss\<rparr>)
                       else (db_error, s\<lparr>r_sessions := ss\<rparr>)))
               else ((400, BError ''Missing fields''), s\<lparr>r_sessions := ss\<rparr>)))"

text \<open>The \<^verbatim>\<open>SET\<close> list of \<^verbatim>\<open>PUT /api/entries/:id\<close>: a column is assigned when the
  payload's field is truthy, and \<^verbatim>\<open>updated_at = CURRENT_TIMESTAMP\<close> always.\<close>

definition r_set :: "nat \<Rightarrow> rbody \<Rightarrow> row \<Rightarrow> row" where
  "r_set now updates r =
     r\<lparr>r_url := (if truthy_text (b_url updates) then the (b_url updates) else r_url r),
       r_username :=
         (if truthy_text (b_username updates) then the (b_username updates) else r_username r),
       r_password_encrypted :=
         (if truthy_text (b_passwordEncrypted updates) then the (b_passwordEncrypted updates)
          else r_password_encrypted r),
       r_favicon_url :=
         (if truthy_text (b_faviconUrl updates) then b_faviconUrl updates else r_favicon_url r),
       r_note := (if truthy_text (b_note updates) then b_note updates else r_note r),
       r_tags := (if truthy_tags (b_tags updates) then tags_param (b_tags updates) else r_tags r),
       r_updated_at := now\<rparr>"

text \<open>The values that the \<^verbatim>\<open>SET\<close> list hands to the query.\<close>

definition set_params :: "rbody \<Rightarrow> string list" where
  "set_params updates =
     concat (map (\<lambda>v. if truthy_text v then opt_text v else [])
       [b_url updates, b_username updates, b_passwordEncrypted updates,
        b_faviconUrl updates, b_note updates])
     @ tags_text (b_tags updates)"

text \<open>\<^verbatim>\<open>updates = body\<close> is \<^verbatim>\<open>null\<close> for an empty body, and \<^verbatim>\<open>updates.url\<close> then
  throws inside the handler's \<^verbatim>\<open>try\<close>. The id is the last segment of the path as it
  was sent, and \<^verbatim>\<open>WHERE id = $n AND owner = $m\<close> reads it as a UUID.\<close>

definition r_updateEntry ::
  "env \<Rightarrow> rstate \<Rightarrow> string \<Rightarrow> string \<Rightarrow> rbody option \<Rightarrow> row response \<times> rstate" where
  "r_updateEntry ev s auth ident body =
     (case getAuth (r_sessions s) auth (now_ms ev) of
        (None, ss) \<Rightarrow> ((401, BError ''Unauthorized''), s\<lparr>r_sessions := ss\<rparr>)
      | (Some user, ss) \<Rightarrow>
          (case r_pool s of
             None \<Rightarrow> (no_pool, s\<lparr>r_sessions := ss\<rparr>)
           | Some d \<Rightarrow>
               (case body of
                  None \<Rightarrow> (db_error, s\<lparr>r_sessions := ss\<rparr>)
                | Some updates \<Rightarrow>
                    (case uuid_in ident of
                       None \<Rightarrow> (db_error, s\<lparr>r_sessions := ss\<rparr>)
                     | Some uuid \<Rightarrow>
                         if list_all pg_text (set_params updates) then
                           (let hit = (\<lambda>r. r_id r = uuid \<and> r_owner r = user);
                                rows = map (\<lambda>r. if hit r then r_set (db_now ev) updates r else r)
                                         (db_entries d);
                                s' = s\<lparr>r_pool := Some (d\<lparr>db_entries := rows\<rparr>),
                                       r_sessions := ss\<rparr>
                            in (case filter hit (db_entries d) of
                                  [] \<Rightarrow> ((404, BError ''Not found''), s')
                                | r # rs \<Rightarrow>
                                    ((200, BEntry (r_set (db_now ev) updates r)), s')))
                         else (db_error, s\<lparr>r_sessions := ss\<rparr>)))))"

text \<open>\<^verbatim>\<open>DELETE FROM password_entries WHERE id = $1 AND owner = $2\<close>, with the id
  read as a UUID.\<close>

definition r_deleteEntry :: "env \<Rightarrow> rstate \<Rightarrow> string \<Rightarrow> string \<Rightarrow> row response \<times> rstate" where
  "r_deleteEntry ev s auth ident =
     (case getAuth (r_sessions s) auth (now_ms ev) of
        (None, ss) \<Rightarrow> ((401, BError ''Unauthorized''), s\<lparr>r_sessions := ss\<rparr>)
      | (Some user, ss) \<Rightarrow>
          (case r_pool s of
             None \<Rightarrow> (no_pool, s\<lparr>r_sessions := ss\<rparr>)
           | Some d \<Rightarrow>
               (case uuid_in ident of
                  None \<Rightarrow> (db_error, s\<lparr>r_sessions := ss\<rparr>)
                | Some uuid \<Rightarrow>
                    (let hit = (\<lambda>r. r_id r = uuid \<and> r_owner r = user);
                         rows = filter (\<lambda>r. \<not> hit r) (db_entries d);
                         s' = s\<lparr>r_pool := Some (d\<lparr>db_entries := rows\<rparr>), r_sessions := ss\<rparr>
                     in if filter hit (db_entries d) \<noteq> [] then ((200, BOk), s')
                        else ((404, BError ''Not found''), s')))))"

text \<open>\<^verbatim>\<open>SELECT DISTINCT UNNEST(tags) ... WHERE owner = $1 AND tags IS NOT NULL AND
  tags != '{}'\<close>, then \<^verbatim>\<open>filter(Boolean)\<close>. The order of the distinct values is
  open in SQL; the model keeps the first occurrences in table order.\<close>

definition row_tags :: "row \<Rightarrow> string list" where
  "row_tags r = (case r_tags r of None \<Rightarrow> [] | Some ts \<Rightarrow> ts)"

definition db_categories :: "string \<Rightarrow> row list \<Rightarrow> string list" where
  "db_categories user rows =
     filter (\<lambda>c. c \<noteq> []) (remdups (concat (map row_tags (owned user rows))))"

definition r_listCategories :: "env \<Rightarrow> rstate \<Rightarrow> string \<Rightarrow> row response \<times> rstate" where
  "r_listCategories ev s auth =
     (case getAuth (r_sessions s) auth (now_ms ev) of
        (None, ss) \<Rightarrow> ((401, BError ''Unauthorized''), s\<lparr>r_sessions := ss\<rparr>)
      | (Some user, ss) \<Rightarrow>
          (case r_pool s of
             None \<Rightarrow> (no_pool, s\<lparr>r_sessions := ss\<rparr>)
           | Some d \<Rightarrow>
               ((200, BCategories (map JStr (db_categories user (db_entries d)))),
                s\<lparr>r_sessions := ss\<rparr>)))"

definition r_addCategory :: "env \<Rightarrow> rstate \<Rightarrow> string \<Rightarrow> json option \<Rightarrow> row response \<times> rstate" where
  "r_addCategory ev s auth category =
     (case getAuth (r_sessions s) auth (now_ms ev) of
        (None, ss) \<Rightarrow> ((401, BError ''Unauthorized''), s\<lparr>r_sessions := ss\<rparr>)
      | (Some user, ss) \<Rightarrow>
          if valid_category category then ((201, BCategory (the category)), s\<lparr>r_sessions := ss\<rparr>)
          else ((400, BError ''Invalid category''), s\<lparr>r_sessions := ss\<rparr>))"

text \<open>\<^verbatim>\<open>UPDATE password_entries SET tags = array_remove(tags, $1),
  updated_at = CURRENT_TIMESTAMP WHERE owner = $2\<close>; \<^verbatim>\<open>array_remove\<close> of \<^verbatim>\<open>NULL\<close>
  is \<^verbatim>\<open>NULL\<close>. The query fails on a category with the character U+0000.\<close>

definition r_strip :: "string \<Rightarrow> nat \<Rightarrow> row \<Rightarrow> row" where
  "r_strip categoryToDelete now r =
     r\<lparr>r_tags := map_option (filter (\<lambda>t. t \<noteq> categoryToDelete)) (r_tags r),
       r_updated_at := now\<rparr>"

definition r_deleteCategory :: "env \<Rightarrow> rstate \<Rightarrow> string \<Rightarrow> string \<Rightarrow> row response \<times> rstate" where
  "r_deleteCategory ev s auth categoryToDelete =
     (case getAuth (r_sessions s) auth (now_ms ev) of
        (None, ss) \<Rightarrow> ((401, BError ''Unauthorized''), s\<lparr>r_sessions := ss\<rparr>)
      | (Some user, ss) \<Rightarrow>
          (case r_pool s of
             None \<Rightarrow> (no_pool, s\<lparr>r_sessions := ss\<rparr>)
           | Some d \<Rightarrow>
               if pg_text categoryToDelete then
                 (let rows = map (\<lambda>r. if r_owner r = user
                                       then r_strip categoryToDelete (db_now ev) r else r)
                               (db_entries d)
                  in ((200, BOk),
                      s\<lparr>r_pool := Some (d\<lparr>db_entries := rows\<rparr>), r_sessions := ss\<rparr>))
               else (db_error, s\<lparr>r_sessions := ss\<rparr>)))"

text \<open>\<^verbatim>\<open>GET /api/export\<close> does not test the pool: \<^verbatim>\<open>pool.query\<close> on \<^verbatim>\<open>null\<close>
  throws inside the \<^verbatim>\<open>try\<close>. The query has no \<^verbatim>\<open>ORDER BY\<close>.\<close>

definition r_export :: "env \<Rightarrow> rstate \<Rightarrow> string \<Rightarrow> row response \<times> rstate" where
  "r_export ev s auth =
     (case getAuth (r_sessions s) auth (now_ms ev) of
        (None, ss) \<Rightarrow> ((401, BError ''Unauthorized''), s\<lparr>r_sessions := ss\<rparr>)
      | (Some user, ss) \<Rightarrow>
          (case r_pool s of
             None \<Rightarrow> (db_error, s\<lparr>r_sessions := ss\<rparr>)
           | Some d \<Rightarrow>
               ((200, BExport user (now_iso ev) (owned user (db_entries d))),
                s\<lparr>r_sessions := ss\<rparr>)))"

fun r_handle :: "kdf \<Rightarrow> env \<Rightarrow> rstate \<Rightarrow> rbody request \<Rightarrow> row response \<times> rstate" where
  "r_handle k ev s (Register u p) = r_register k ev s u p"
| "r_handle k ev s (Login u p) = r_login k ev s u p"
| "r_handle k ev s (Me a) = r_me ev s a"
| "r_handle k ev s (ListEntries a) = r_listEntries ev s a"
| "r_handle k ev s (ListCategories a) = r_listCategories ev s a"
| "r_handle k ev s (AddCategory a c) = r_addCategory ev s a c"
| "r_handle k ev s (DeleteCategory a c) = r_deleteCategory ev s a c"
| "r_handle k ev s (AddEntry a b) = r_addEntry ev s a b"
| "r_handle k ev s (UpdateEntry a i b) = r_updateEntry ev s a i b"
| "r_handle k ev s (DeleteEntry a i) = r_deleteEntry ev s a i"
| "r_handle k ev s (Export a) = r_export ev s a"

fun r_run :: "kdf \<Rightarrow> rstate \<Rightarrow> (env \<times> rbody request) list \<Rightarrow> row response list \<times> rstate" where
  "r_run k s [] = ([], s)"
| "r_run k s ((ev, r) # rs) =
     (case r_handle k ev s r of
        (resp, s') \<Rightarrow> (case r_run k s' rs of (resps, s'') \<Rightarrow> (resp # resps, s'')))"

section \<open>Observations on states and runs\<close>

text \<open>The user table of the relational server (empty when there is no pool).\<close>

definition r_users :: "rstate \<Rightarrow> (string \<rightharpoonup> urow)" where
  "r_users s = (case r_pool s of None \<Rightarrow> Map.empty | Some d \<Rightarrow> db_users d)"

text \<open>The number of requests of a run that register \<open>u\<close> and are answered 201.\<close>

fun is_register :: "string \<Rightarrow> 'b request \<Rightarrow> bool" where
  "is_register u (Register u' p) = (u' = u)"
| "is_register u _ = False"

definition register_successes :: "string \<Rightarrow> 'b request list \<Rightarrow> 'e response list \<Rightarrow> nat" where
  "register_successes u qs rs =
     length (filter (\<lambda>(q, r). is_register u q \<and> fst r = 201) (zip qs rs))"

text \<open>What is stored for a user: \<open>f_owned s u\<close> is the content of the vault file that
  carries the name \<open>u\<close>, and \<open>owned u (r_rows s)\<close> are the rows of the table whose
  \<^verbatim>\<open>owner\<close> column is \<open>u\<close>. \<open>returned\<close> is the list of entries of a response.\<close>

definition f_owned :: "fstate \<Rightarrow> string \<Rightarrow> obj list" where
  "f_owned s u = (case f_vaults s u of None \<Rightarrow> [] | Some es \<Rightarrow> es)"

definition r_rows :: "rstate \<Rightarrow> row list" where
  "r_rows s = (case r_pool s of None \<Rightarrow> [] | Some d \<Rightarrow> db_entries d)"

definition returned :: "'e response \<Rightarrow> 'e list" where
  "returned r = (case snd r of BEntries es \<Rightarrow> es | _ \<Rightarrow> [])"

section \<open>Example data\<close>

text \<open>The concrete inputs of the examples below. \<open>toy_pbkdf2\<close> stands in for the key
  derivation there: any function of that type will do, and this one tells passwords
  apart.\<close>

definition toy_pbkdf2 :: kdf where
  "toy_pbkdf2 password salt iterations = salt @ '':'' @ password"

definition env1 :: env where
  "env1 = \<lparr>now_ms = 1000, now_iso = ''2026-01-01T00:00:01.000Z'', rnd_hex = ''5a17'',
            rnd_uuid = ''a0000000-0000-4000-8000-000000000001'', db_now = 1000\<rparr>"

definition env2 :: env where
  "env2 = \<lparr>now_ms = 2000, now_iso = ''2026-01-01T00:00:02.000Z'', rnd_hex = ''70ce'',
            rnd_uuid = ''a0000000-0000-4000-8000-000000000002'', db_now = 2000\<rparr>"

definition f_init :: fstate where
  "f_init = \<lparr>f_users = Map.empty, f_vaults = Map.empty, f_sessions = Map.empty\<rparr>"

definition r_init :: rstate where
  "r_init =
     \<lparr>r_pool = Some \<lparr>db_users = Map.empty, db_entries = []\<rparr>, r_sessions = Map.empty\<rparr>"

text \<open>\<open>alice\<close> registers with the password \<open>secret1\<close> and logs in; her token is
  \<open>70ce\<close>, issued at time 2000.\<close>

definition f_alice :: fstate where
  "f_alice = snd (f_register toy_pbkdf2 env1 f_init ''alice'' ''secret1'')"

definition r_alice :: rstate where
  "r_alice = snd (r_register toy_pbkdf2 env1 r_init ''alice'' ''secret1'')"

definition f_alice_in :: fstate where
  "f_alice_in = snd (f_login toy_pbkdf2 env2 f_alice ''alice'' ''secret1'')"

definition r_alice_in :: rstate where
  "r_alice_in = snd (r_login toy_pbkdf2 env2 r_alice ''alice'' ''secret1'')"

definition env3 :: env where
  "env3 = \<lparr>now_ms = 3000, now_iso = ''2026-01-01T00:00:03.000Z'', rnd_hex = ''9d0c'',
            rnd_uuid = ''a0000000-0000-4000-8000-000000000003'', db_now = 3000\<rparr>"

definition env4 :: env where
  "env4 = \<lparr>now_ms = 4000, now_iso = ''2026-01-01T00:00:04.000Z'', rnd_hex = ''b0b5'',
            rnd_uuid = ''a0000000-0000-4000-8000-000000000004'', db_now = 4000\<rparr>"

definition env5 :: env where
  "env5 = \<lparr>now_ms = 5000, now_iso = ''2026-01-01T00:00:05.000Z'', rnd_hex = ''0005'',
            rnd_uuid = ''a0000000-0000-4000-8000-000000000005'', db_now = 5000\<rparr>"

definition env6 :: env where
  "env6 = \<lparr>now_ms = 6000, now_iso = ''2026-01-01T00:00:06.000Z'', rnd_hex = ''0006'',
            rnd_uuid = ''a0000000-0000-4000-8000-000000000006'', db_now = 6000\<rparr>"

definition env7 :: env where
  "env7 = \<lparr>now_ms = 7000, now_iso = ''2026-01-01T00:00:07.000Z'', rnd_hex = ''0007'',
            rnd_uuid = ''a0000000-0000-4000-8000-000000000007'', db_now = 7000\<rparr>"

text \<open>Two entry bodies, and a run in which alice and bob register, log in (tokens
  \<open>70ce\<close> and \<open>b0b5\<close>) and add one entry each, whose ids are the UUIDs of \<open>env5\<close>
  and \<open>env6\<close>. The file-backed server is given the same requests with their bodies as
  JSON objects.\<close>

definition body_x :: rbody where
  "body_x = \<lparr>b_url = Some ''https://x.com'', b_username = Some ''a'', b_owner = None,
             b_tags = TagsArr [''work''], b_note = Some ''old'', b_passwordEncrypted = Some ''ct1'',
             b_faviconUrl = None\<rparr>"

definition body_y :: rbody where
  "body_y = \<lparr>b_url = Some ''https://y.org'', b_username = Some ''b'', b_owner = None,
             b_tags = TagsAbsent, b_note = None, b_passwordEncrypted = Some ''ct2'',
             b_faviconUrl = None\<rparr>"

definition story :: "(env \<times> rbody request) list" where
  "story =
     [(env1, Register ''alice'' ''secret1''),
      (env2, Login ''alice'' ''secret1''),
      (env3, Register ''bob'' ''hunter22''),
      (env4, Login ''bob'' ''hunter22''),
      (env5, AddEntry ''Bearer 70ce'' (Some body_x)),
      (env6, AddEntry ''Bearer b0b5'' (Some body_y))]"

definition as_json :: "(env \<times> rbody request) list \<Rightarrow> (env \<times> obj request) list" where
  "as_json rs = map (\<lambda>(ev, q). (ev, map_request to_obj q)) rs"

definition f_two :: fstate where
  "f_two = snd (f_run toy_pbkdf2 f_init (as_json story))"

definition r_two :: rstate where
  "r_two = snd (r_run toy_pbkdf2 r_init story)"

text \<open>The second body again, naming alice as its owner.\<close>

definition body_z :: rbody where
  "body_z = body_y\<lparr>b_owner := Some ''alice''\<rparr>"

text \<open>Two update payloads: one sets the note, one holds the empty string for it.\<close>

definition set_note :: rbody where
  "set_note = \<lparr>b_url = None, b_username = None, b_owner = None, b_tags = TagsAbsent,
               b_note = Some ''new'', b_passwordEncrypted = None, b_faviconUrl = None\<rparr>"

definition clear_note :: rbody where
  "clear_note = set_note\<lparr>b_note := Some ''''\<rparr>"

text \<open>A later instant, and the states after bob's request with \<^verbatim>\<open>owner: "alice"\<close>
  in its body.\<close>

definition env8 :: env where
  "env8 = \<lparr>now_ms = 8000, now_iso = ''2026-01-01T00:00:08.000Z'', rnd_hex = ''0008'',
            rnd_uuid = ''a0000000-0000-4000-8000-000000000008'', db_now = 8000\<rparr>"

definition f_three :: fstate where
  "f_three = snd (f_addEntry env7 f_two ''Bearer b0b5'' (Some (to_obj body_z)))"

definition r_three :: rstate where
  "r_three = snd (r_addEntry env7 r_two ''Bearer b0b5'' (Some body_z))"

text \<open>An update payload that names \<^verbatim>\<open>id\<close>, \<^verbatim>\<open>owner\<close> and \<^verbatim>\<open>createdAt\<close>,
  and the two-user run followed by alice listing her categories and sending an update
  with an empty body.\<close>

definition rename :: obj where
  "rename = [''id'' \<mapsto> JStr ''a0000000-0000-4000-8000-000000000006'',
             ''owner'' \<mapsto> JStr ''bob'',
             ''createdAt'' \<mapsto> JStr ''1999-12-31T00:00:00.000Z'']"

definition story2 :: "(env \<times> rbody request) list" where
  "story2 =
     story @ [(env7, ListCategories ''Bearer 70ce''),
              (env8, UpdateEntry ''Bearer 70ce'' ''a0000000-0000-4000-8000-000000000005'' None)]"

section \<open>Facts about the handlers\<close>

lemmas f_handler_defs = f_register_def f_login_def f_me_def f_listEntries_def f_listCategories_def
  f_addCategory_def f_deleteCategory_def f_addEntry_def f_updateEntry_def f_deleteEntry_def f_export_def

lemmas r_handler_defs = r_register_def r_login_def r_me_def r_listEntries_def r_listCategories_def
  r_addCategory_def r_deleteCategory_def r_addEntry_def r_updateEntry_def r_deleteEntry_def r_export_def

text \<open>A well-formed username has no character U+0000.\<close>

lemma valid_user_pg_text: "isValidUser u \<Longrightarrow> pg_text u"
  by (auto simp: isValidUser_def pg_text_def list_all_iff user_char_def)

text \<open>A request that is authenticated leaves the session map as it is.\<close>

lemma getAuth_Some:
  "fst (getAuth ss a n) = Some u \<Longrightarrow> getAuth ss a n = (Some u, ss)"
  by (auto simp: getAuth_def split: option.splits if_splits)

subsection \<open>At most one registration per username\<close>

lemma f_run_Cons:
  "f_run k s ((ev, q) # rs) =
     (fst (f_handle k ev s q) # fst (f_run k (snd (f_handle k ev s q)) rs),
      snd (f_run k (snd (f_handle k ev s q)) rs))"
  by (simp split: prod.splits)

lemma r_run_Cons:
  "r_run k s ((ev, q) # rs) =
     (fst (r_handle k ev s q) # fst (r_run k (snd (r_handle k ev s q)) rs),
      snd (r_run k (snd (r_handle k ev s q)) rs))"
  by (simp split: prod.splits)

lemma f_users_kept:
  "f_users s u = Some rec \<Longrightarrow> f_users (snd (f_handle k ev s q)) u = Some rec"
  by (cases q)
    (auto simp: f_handler_defs users_get_def Let_def
      split: prod.splits option.splits list.splits if_splits user_prop.splits)

lemma r_users_kept:
  "r_users s u = Some rec \<Longrightarrow> r_users (snd (r_handle k ev s q)) u = Some rec"
  by (cases q)
    (auto simp: r_handler_defs r_users_def Let_def no_pool_def db_error_def
      split: prod.splits option.splits list.splits if_splits)

lemma f_run_users_kept:
  "f_users s u = Some rec \<Longrightarrow> f_users (snd (f_run k s rs)) u = Some rec"
proof (induction rs arbitrary: s)
  case Nil
  then show ?case by simp
next
  case (Cons a rs)
  obtain ev q where a: "a = (ev, q)" by (cases a)
  from Cons.prems have "f_users (snd (f_handle k ev s q)) u = Some rec"
    by (rule f_users_kept)
  from Cons.IH[OF this] show ?case
    by (simp add: a f_run_Cons del: f_run.simps)
qed

lemma r_run_users_kept:
  "r_users s u = Some rec \<Longrightarrow> r_users (snd (r_run k s rs)) u = Some rec"
proof (induction rs arbitrary: s)
  case Nil
  then show ?case by simp
next
  case (Cons a rs)
  obtain ev q where a: "a = (ev, q)" by (cases a)
  from Cons.prems have "r_users (snd (r_handle k ev s q)) u = Some rec"
    by (rule r_users_kept)
  from Cons.IH[OF this] show ?case
    by (simp add: a r_run_Cons del: r_run.simps)
qed

lemma f_register_taken:
  "f_users s u = Some rec \<Longrightarrow>
   f_register k ev s u p =
     ((if isValidUser u \<and> isValidPassword p then (409, BError ''User exists'')
       else (400, BError ''Invalid username or password'')), s)"
  by (simp add: f_register_def users_get_def)

lemma r_register_taken:
  "r_users s u = Some rec \<Longrightarrow>
   r_register k ev s u p =
     ((if isValidUser u \<and> isValidPassword p then (409, BError ''User exists'')
       else (400, BError ''Invalid username or password'')), s)"
  by (auto simp add: r_register_def r_users_def split: option.splits)

lemma f_register_201:
  "fst (fst (f_register k ev s u p)) = 201 \<Longrightarrow> f_users (snd (f_register k ev s u p)) u \<noteq> None"
  by (auto simp: f_register_def Let_def split: if_splits user_prop.splits)

lemma r_register_201:
  "fst (fst (r_register k ev s u p)) = 201 \<Longrightarrow> r_users (snd (r_register k ev s u p)) u \<noteq> None"
  by (auto simp: r_register_def r_users_def Let_def no_pool_def split: if_splits option.splits)

lemma successes_Cons:
  "register_successes u (q # qs) (r # rs) =
     (if is_register u q \<and> fst r = 201 then 1 else 0) + register_successes u qs rs"
  by (simp add: register_successes_def)

lemma f_no_success_when_taken:
  "f_users s u = Some rec \<Longrightarrow> register_successes u (map snd rs) (fst (f_run k s rs)) = 0"
proof (induction rs arbitrary: s)
  case Nil
  then show ?case by (simp add: register_successes_def)
next
  case (Cons a rs)
  obtain ev q where a: "a = (ev, q)" by (cases a)
  have kept: "f_users (snd (f_handle k ev s q)) u = Some rec"
    using Cons.prems by (rule f_users_kept)
  have here: "\<not> (is_register u q \<and> fst (fst (f_handle k ev s q)) = 201)"
    using Cons.prems by (cases q) (auto simp: f_register_taken)
  from Cons.IH[OF kept] here show ?case
    by (simp add: a successes_Cons f_run_Cons del: f_run.simps)
qed

lemma r_no_success_when_taken:
  "r_users s u = Some rec \<Longrightarrow> register_successes u (map snd rs) (fst (r_run k s rs)) = 0"
proof (induction rs arbitrary: s)
  case Nil
  then show ?case by (simp add: register_successes_def)
next
  case (Cons a rs)
  obtain ev q where a: "a = (ev, q)" by (cases a)
  have kept: "r_users (snd (r_handle k ev s q)) u = Some rec"
    using Cons.prems by (rule r_users_kept)
  have here: "\<not> (is_register u q \<and> fst (fst (r_handle k ev s q)) = 201)"
    using Cons.prems by (cases q) (auto simp: r_register_taken)
  from Cons.IH[OF kept] here show ?case
    by (simp add: a successes_Cons r_run_Cons del: r_run.simps)
qed

lemma f_at_most_one:
  "register_successes u (map snd rs) (fst (f_run k s rs)) \<le> 1"
proof (induction rs arbitrary: s)
  case Nil
  then show ?case by (simp add: register_successes_def)
next
  case (Cons a rs)
  obtain ev q where a: "a = (ev, q)" by (cases a)
  show ?case
  proof (cases "is_register u q \<and> fst (fst (f_handle k ev s q)) = 201")
    case True
    then obtain p where q: "q = Register u p" by (cases q) auto
    with True have "f_users (snd (f_handle k ev s q)) u \<noteq> None"
      by (simp add: f_register_201)
    then obtain rec where "f_users (snd (f_handle k ev s q)) u = Some rec" by auto
    from f_no_success_when_taken[OF this, of rs k] True show ?thesis
      by (simp add: a successes_Cons f_run_Cons del: f_run.simps)
  next
    case False
    with Cons.IH[of "snd (f_handle k ev s q)"] show ?thesis
      by (auto simp add: a successes_Cons f_run_Cons simp del: f_run.simps)
  qed
qed

lemma r_at_most_one:
  "register_successes u (map snd rs) (fst (r_run k s rs)) \<le> 1"
proof (induction rs arbitrary: s)
  case Nil
  then show ?case by (simp add: register_successes_def)
next
  case (Cons a rs)
  obtain ev q where a: "a = (ev, q)" by (cases a)
  show ?case
  proof (cases "is_register u q \<and> fst (fst (r_handle k ev s q)) = 201")
    case True
    then obtain p where q: "q = Register u p" by (cases q) auto
    with True have "r_users (snd (r_handle k ev s q)) u \<noteq> None"
      by (simp add: r_register_201)
    then obtain rec where "r_users (snd (r_handle k ev s q)) u = Some rec" by auto
    from r_no_success_when_taken[OF this, of rs k] True show ?thesis
      by (simp add: a successes_Cons r_run_Cons del: r_run.simps)
  next
    case False
    with Cons.IH[of "snd (r_handle k ev s q)"] show ?thesis
      by (auto simp add: a successes_Cons r_run_Cons simp del: r_run.simps)
  qed
qed

subsection \<open>Listing, updating and deleting reach one vault\<close>

text \<open>A request authenticated as \<open>B\<close> lists the vault file of \<open>B\<close>, or the rows whose
  owner is \<open>B\<close>, and its update or delete changes nothing in the vault file, or among the
  rows, of another user.\<close>

lemma f_list_as:
  "fst (getAuth (f_sessions s) auth (now_ms ev)) = Some B \<Longrightarrow>
   fst (f_listEntries ev s auth) = (200, BEntries (f_owned s B))"
  by (auto simp: f_listEntries_def f_owned_def loadEntries_def split: prod.splits option.splits)

lemma f_list_blind:
  "A \<noteq> B \<Longrightarrow> fst (getAuth (f_sessions s) auth (now_ms ev)) = Some B \<Longrightarrow>
   fst (f_listEntries ev (s\<lparr>f_vaults := (f_vaults s)(A := v)\<rparr>) auth) = fst (f_listEntries ev s auth)"
  by (auto simp: f_listEntries_def loadEntries_def split: prod.splits option.splits)

lemma f_update_frame:
  "A \<noteq> B \<Longrightarrow> fst (getAuth (f_sessions s) auth (now_ms ev)) = Some B \<Longrightarrow>
   f_vaults (snd (f_updateEntry ev s auth i body)) A = f_vaults s A"
  by (auto simp: f_updateEntry_def loadEntries_def saveEntries_def Let_def
      split: prod.splits option.splits list.splits)

lemma f_delete_frame:
  "A \<noteq> B \<Longrightarrow> fst (getAuth (f_sessions s) auth (now_ms ev)) = Some B \<Longrightarrow>
   f_vaults (snd (f_deleteEntry ev s auth i)) A = f_vaults s A"
  by (auto simp: f_deleteEntry_def loadEntries_def saveEntries_def Let_def
      split: prod.splits option.splits list.splits)

lemma set_newest_first: "set (newest_first rows) = set rows"
  by (simp add: newest_first_def)

lemma r_list_as:
  "fst (getAuth (r_sessions t) auth (now_ms ev)) = Some B \<Longrightarrow>
   set (returned (fst (r_listEntries ev t auth))) = set (owned B (r_rows t))"
  by (auto simp: r_listEntries_def returned_def r_rows_def no_pool_def set_newest_first
      owned_def split: prod.splits option.splits)

lemma r_list_owner:
  "fst (getAuth (r_sessions t) auth (now_ms ev)) = Some B \<Longrightarrow>
   list_all (\<lambda>r. r_owner r = B) (returned (fst (r_listEntries ev t auth)))"
  using r_list_as[of t auth ev B] by (auto simp: list_all_iff owned_def)

lemma owned_map_other:
  "(\<And>r. r_owner r = A \<Longrightarrow> f r = r) \<Longrightarrow> (\<And>r. r_owner (f r) = r_owner r) \<Longrightarrow>
   owned A (map f rows) = owned A rows"
  by (induction rows) (auto simp: owned_def)

lemma r_update_frame:
  "A \<noteq> B \<Longrightarrow> fst (getAuth (r_sessions t) auth (now_ms ev)) = Some B \<Longrightarrow>
   owned A (r_rows (snd (r_updateEntry ev t auth i body))) = owned A (r_rows t)"
  by (auto simp: r_updateEntry_def r_rows_def no_pool_def db_error_def Let_def r_set_def
      intro!: owned_map_other split: prod.splits option.splits list.splits)

lemma r_delete_frame:
  "A \<noteq> B \<Longrightarrow> fst (getAuth (r_sessions t) auth (now_ms ev)) = Some B \<Longrightarrow>
   owned A (r_rows (snd (r_deleteEntry ev t auth i))) = owned A (r_rows t)"
  by (auto simp: r_deleteEntry_def r_rows_def no_pool_def Let_def owned_def
      intro!: filter_cong split: prod.splits option.splits list.splits)

subsection \<open>Updating an entry\<close>

lemma f_merge_apply:
  "f_merge now u e =
     (\<lambda>k. if k = ''updatedAt'' then Some (JStr now)
          else (case u k of None \<Rightarrow> e k | Some v \<Rightarrow> Some v))"
  by (rule ext) (simp add: f_merge_def map_add_def)

lemma list_ex_filter: "list_ex P xs = (filter P xs \<noteq> [])"
  by (induction xs) auto

lemma f_update_effect:
  assumes "fst (getAuth (f_sessions s) auth (now_ms ev)) = Some user"
  shows "f_owned (snd (f_updateEntry ev s auth i body)) user =
           map (\<lambda>e. if e ''id'' = Some (JStr i)
                     then f_merge (now_iso ev) (body_or_empty body) e else e) (f_owned s user)"
    and "fst (f_updateEntry ev s auth i body) =
           (if list_ex (\<lambda>e. e ''id'' = Some (JStr i)) (f_owned s user)
            then (200, BEntry (f_merge (now_iso ev) (body_or_empty body)
                    (last (filter (\<lambda>e. e ''id'' = Some (JStr i)) (f_owned s user)))))
            else (404, BError ''Not found''))"
  using assms
  by (auto simp: f_updateEntry_def f_owned_def loadEntries_def saveEntries_def Let_def
      list_ex_filter split: prod.splits option.splits list.splits)

lemma r_update_effect:
  assumes "fst (getAuth (r_sessions t) auth (now_ms ev)) = Some user" and "r_pool t \<noteq> None"
    and "uuid_in i = Some uuid" and "list_all pg_text (set_params u)"
  shows "r_rows (snd (r_updateEntry ev t auth i (Some u))) =
           map (\<lambda>r. if r_id r = uuid \<and> r_owner r = user then r_set (db_now ev) u r else r)
             (r_rows t)"
    and "fst (r_updateEntry ev t auth i (Some u)) =
           (if list_ex (\<lambda>r. r_id r = uuid \<and> r_owner r = user) (r_rows t)
            then (200, BEntry (r_set (db_now ev) u
                    (hd (filter (\<lambda>r. r_id r = uuid \<and> r_owner r = user) (r_rows t)))))
            else (404, BError ''Not found''))"
  using assms
  by (auto simp: r_updateEntry_def r_rows_def Let_def list_ex_filter
      split: prod.splits option.splits list.splits)

text \<open>Text that is not a UUID in the place of the id, or a value with the character
  U+0000, and the query fails: 500 and no change.\<close>

lemma r_update_refused:
  assumes "fst (getAuth (r_sessions t) auth (now_ms ev)) = Some user" and "r_pool t \<noteq> None"
    and "uuid_in i = None \<or> \<not> list_all pg_text (set_params u)"
  shows "r_updateEntry ev t auth i (Some u) = ((500, BError ''Database error''), t)"
  using assms(2,3)
  by (auto simp: r_updateEntry_def getAuth_Some[OF assms(1)] db_error_def
      split: option.splits)

lemma r_delete_refused:
  assumes "fst (getAuth (r_sessions t) auth (now_ms ev)) = Some user" and "r_pool t \<noteq> None"
    and "uuid_in i = None"
  shows "r_deleteEntry ev t auth i = ((500, BError ''Database error''), t)"
  using assms(2,3)
  by (auto simp: r_deleteEntry_def getAuth_Some[OF assms(1)] db_error_def
      split: option.splits)

subsection \<open>Adding and deleting an entry\<close>

lemma f_add_effect:
  assumes "fst (getAuth (f_sessions s) auth (now_ms ev)) = Some user"
    and "truthy (body_or_empty body ''url'')" and "truthy (body_or_empty body ''username'')"
    and "truthy (body_or_empty body ''passwordEncrypted'')"
  shows "fst (f_addEntry ev s auth body) =
           (201, BEntry (f_new_entry ev user (body_or_empty body)))"
    and "f_owned (snd (f_addEntry ev s auth body)) user =
           f_new_entry ev user (body_or_empty body) # f_owned s user"
    and "A \<noteq> user \<Longrightarrow> f_owned (snd (f_addEntry ev s auth body)) A = f_owned s A"
    and "f_sessions (snd (f_addEntry ev s auth body)) = f_sessions s"
  using assms(2-)
  by (auto simp: f_addEntry_def getAuth_Some[OF assms(1)] Let_def case_prod_beta f_owned_def
      loadEntries_def saveEntries_def split: option.splits)

lemma r_add_effect:
  assumes "fst (getAuth (r_sessions t) auth (now_ms ev)) = Some user" and "r_pool t = Some d"
    and "truthy_text (b_url b)" and "truthy_text (b_username b)"
    and "truthy_text (b_passwordEncrypted b)"
    and "list_all pg_text (insert_params (r_owner (r_new_row ev user b)) b)"
    and "r_owner (r_new_row ev user b) \<in> dom (db_users d)"
    and "r_id (r_new_row ev user b) \<notin> set (map r_id (db_entries d))"
  shows "fst (r_addEntry ev t auth (Some b)) = (201, BEntry (r_new_row ev user b))"
    and "r_rows (snd (r_addEntry ev t auth (Some b))) = r_rows t @ [r_new_row ev user b]"
    and "r_users (snd (r_addEntry ev t auth (Some b))) = r_users t"
    and "r_sessions (snd (r_addEntry ev t auth (Some b))) = r_sessions t"
  using assms(2-)
  by (auto simp: r_addEntry_def getAuth_Some[OF assms(1)] Let_def r_rows_def r_users_def)

lemma length_filter_not: "(length (filter (\<lambda>x. \<not> P x) xs) \<noteq> length xs) = list_ex P xs"
proof (induction xs)
  case Nil
  then show ?case by simp
next
  case (Cons x xs)
  have le: "length (filter (\<lambda>x. \<not> P x) xs) \<le> length xs" by (rule length_filter_le)
  show ?case
  proof (cases "P x")
    case True
    from le have "length (filter (\<lambda>x. \<not> P x) xs) \<noteq> Suc (length xs)" by linarith
    with True show ?thesis by simp
  next
    case False
    with Cons show ?thesis by simp
  qed
qed

lemma f_delete_effect:
  assumes "fst (getAuth (f_sessions s) auth (now_ms ev)) = Some user"
  shows "fst (f_deleteEntry ev s auth i) =
           (if list_ex (\<lambda>e. e ''id'' = Some (JStr i)) (f_owned s user) then (200, BOk)
            else (404, BError ''Not found''))"
    and "f_owned (snd (f_deleteEntry ev s auth i)) user =
           filter (\<lambda>e. e ''id'' \<noteq> Some (JStr i)) (f_owned s user)"
  using length_filter_not[of "\<lambda>e. e ''id'' = Some (JStr i)" "f_owned s user"]
  by (auto simp: f_deleteEntry_def getAuth_Some[OF assms] Let_def case_prod_beta f_owned_def
      loadEntries_def saveEntries_def split: option.splits)

lemma r_delete_effect:
  assumes "fst (getAuth (r_sessions t) auth (now_ms ev)) = Some user" and "r_pool t \<noteq> None"
    and "uuid_in i = Some uuid"
  shows "fst (r_deleteEntry ev t auth i) =
           (if list_ex (\<lambda>r. r_id r = uuid \<and> r_owner r = user) (r_rows t) then (200, BOk)
            else (404, BError ''Not found''))"
    and "r_rows (snd (r_deleteEntry ev t auth i)) =
           filter (\<lambda>r. \<not> (r_id r = uuid \<and> r_owner r = user)) (r_rows t)"
  using assms(2-)
  by (auto simp: r_deleteEntry_def getAuth_Some[OF assms(1)] Let_def r_rows_def list_ex_filter)

subsection \<open>Listing the categories\<close>

lemma set_values_of: "set (values_of xs) = {v. Some v \<in> set xs}"
  by (induction xs rule: values_of.induct) auto

lemma set_set_values:
  "set (set_values seen vs) = {v \<in> set vs. \<not> (is_primitive v \<and> v \<in> set seen)}"
  by (induction vs arbitrary: seen) auto

lemma distinct_set_values:
  "distinct (filter is_primitive (set_values seen vs))"
  by (induction vs arbitrary: seen) (auto simp: set_set_values)

lemma image_lookup: "Some v \<in> (\<lambda>e. e k) ` S \<longleftrightarrow> (\<exists>e \<in> S. e k = Some v)"
proof
  assume "Some v \<in> (\<lambda>e. e k) ` S"
  then obtain e where "e \<in> S" and "Some v = e k" by (rule imageE)
  then show "\<exists>e \<in> S. e k = Some v" by (intro bexI[of _ e]) simp_all
next
  assume "\<exists>e \<in> S. e k = Some v"
  then obtain e where "e \<in> S" and "e k = Some v" by (rule bexE)
  then show "Some v \<in> (\<lambda>e. e k) ` S" by (intro image_eqI[of _ _ e]) simp_all
qed

lemma set_file_categories:
  "set (file_categories es) =
     {v. truthy (Some v) \<and> (\<exists>e \<in> set es. e ''category'' = Some v)}"
  by (simp add: file_categories_def set_set_values set_values_of image_lookup conj_commute)

lemma set_db_categories:
  "set (db_categories user rows) =
     {c. c \<noteq> [] \<and> (\<exists>r \<in> set rows. r_owner r = user \<and> (\<exists>ts. r_tags r = Some ts \<and> c \<in> set ts))}"
proof -
  have "c \<in> set (row_tags r) \<longleftrightarrow> (\<exists>ts. r_tags r = Some ts \<and> c \<in> set ts)" for r c
    by (cases "r_tags r") (simp_all add: row_tags_def)
  then show ?thesis
    by (auto simp: db_categories_def owned_def)
qed

lemma distinct_db_categories: "distinct (db_categories user rows)"
  by (simp add: db_categories_def)

lemma f_owned_load:
  "f_owned (s\<lparr>f_vaults := snd (loadEntries (f_vaults s) u), f_sessions := ss\<rparr>) = f_owned s"
  by (auto simp: f_owned_def loadEntries_def fun_eq_iff split: option.splits)

lemma fst_loadEntries: "fst (loadEntries (f_vaults s) u) = f_owned s u"
  by (auto simp: f_owned_def loadEntries_def split: option.splits)

lemma f_listCategories_effect:
  assumes "fst (getAuth (f_sessions s) auth (now_ms ev)) = Some user"
  shows "fst (f_listCategories ev s auth) = (200, BCategories (file_categories (f_owned s user)))"
    and "f_owned (snd (f_listCategories ev s auth)) = f_owned s"
    and "f_users (snd (f_listCategories ev s auth)) = f_users s"
    and "f_sessions (snd (f_listCategories ev s auth)) = f_sessions s"
  using f_owned_load[where s = s and u = user and ss = "f_sessions s"]
    fst_loadEntries[of s user]
  by (simp_all add: f_listCategories_def getAuth_Some[OF assms] case_prod_beta)

lemma r_listCategories_effect:
  assumes "fst (getAuth (r_sessions t) auth (now_ms ev)) = Some user" and "r_pool t \<noteq> None"
  shows "r_listCategories ev t auth =
           ((200, BCategories (map JStr (db_categories user (r_rows t)))), t)"
  using assms(2)
  by (auto simp: r_listCategories_def r_rows_def getAuth_Some[OF assms(1)])

subsection \<open>Deleting a category\<close>

lemma f_deleteCategory_effect:
  assumes "fst (getAuth (f_sessions s) auth (now_ms ev)) = Some user"
  shows "fst (f_deleteCategory ev s auth c) = (200, BOk)"
    and "f_owned (snd (f_deleteCategory ev s auth c)) user =
           map (f_clear_category c (now_iso ev)) (f_owned s user)"
    and "A \<noteq> user \<Longrightarrow> f_vaults (snd (f_deleteCategory ev s auth c)) A = f_vaults s A"
  by (auto simp: f_deleteCategory_def getAuth_Some[OF assms] Let_def case_prod_beta
      f_owned_def loadEntries_def saveEntries_def split: option.splits)

lemma r_deleteCategory_effect:
  assumes "fst (getAuth (r_sessions t) auth (now_ms ev)) = Some user" and "r_pool t \<noteq> None"
    and "pg_text c"
  shows "fst (r_deleteCategory ev t auth c) = (200, BOk)"
    and "r_rows (snd (r_deleteCategory ev t auth c)) =
           map (\<lambda>r. if r_owner r = user then r_strip c (db_now ev) r else r) (r_rows t)"
  using assms(2,3)
  by (auto simp: r_deleteCategory_def getAuth_Some[OF assms(1)] Let_def r_rows_def)

subsection \<open>The identity of an entry under update\<close>

text \<open>The \<^verbatim>\<open>SET\<close> list of the relational server never names \<^verbatim>\<open>id\<close>,
  \<^verbatim>\<open>owner\<close> or \<^verbatim>\<open>created_at\<close>: whatever the request, every row keeps them.\<close>

lemma r_update_immutable:
  "map (\<lambda>r. (r_id r, r_owner r, r_created_at r)) (r_rows (snd (r_updateEntry ev t auth i body))) =
   map (\<lambda>r. (r_id r, r_owner r, r_created_at r)) (r_rows t)"
  by (auto simp: r_updateEntry_def r_rows_def Let_def no_pool_def db_error_def r_set_def
      split: prod.splits option.splits list.splits)

subsection \<open>Registration and login\<close>

text \<open>What both servers do for a registration that is answered 201: a login with the
  same password is answered 200 with a token; a login with a password whose derived key
  differs is answered 401 \<open>Invalid credentials\<close>, as is a login with a name that
  \<^verbatim>\<open>users[username]\<close> (or the \<^verbatim>\<open>users\<close> table) does not know.\<close>

lemma f_register_then_login:
  assumes "f_register k ev s u p = ((201, b), s')"
  shows "fst (f_login k ev' s' u p) = (200, BSession (rnd_hex ev') u)"
    and "k p' (rnd_hex ev) 120000 \<noteq> k p (rnd_hex ev) 120000 \<Longrightarrow>
         f_login k ev' s' u p' = ((401, BError ''Invalid credentials''), s')"
  using assms
  by (auto simp: f_register_def f_login_def users_get_def Let_def verifyPassword_def
      hashPassword_def split: if_splits user_prop.splits)

lemma r_register_then_login:
  assumes "r_register k ev s u p = ((201, b), s')"
  shows "fst (r_login k ev' s' u p) = (200, BSession (rnd_hex ev') u)"
    and "k p' (rnd_hex ev) 120000 \<noteq> k p (rnd_hex ev) 120000 \<Longrightarrow>
         r_login k ev' s' u p' = ((401, BError ''Invalid credentials''), s')"
  using assms
  by (auto simp: r_register_def r_login_def Let_def verifyPassword_def no_pool_def
      hashPassword_def valid_user_pg_text split: if_splits option.splits)

lemma login_unknown:
  "f_users s u = None \<Longrightarrow> u \<notin> set object_prototype_keys \<Longrightarrow>
   f_login k ev s u p = ((401, BError ''Invalid credentials''), s)"
  "r_pool t = Some d \<Longrightarrow> db_users d u = None \<Longrightarrow> pg_text u \<Longrightarrow>
   r_login k ev t u p = ((401, BError ''Invalid credentials''), t)"
  by (simp_all add: f_login_def users_get_def r_login_def)

subsection \<open>The two servers on one run\<close>

lemma f_run_append:
  "f_run k s (xs @ ys) =
     (fst (f_run k s xs) @ fst (f_run k (snd (f_run k s xs)) ys),
      snd (f_run k (snd (f_run k s xs)) ys))"
  by (induction xs arbitrary: s) (auto simp: f_run_Cons simp del: f_run.simps(2))

lemma r_run_append:
  "r_run k s (xs @ ys) =
     (fst (r_run k s xs) @ fst (r_run k (snd (r_run k s xs)) ys),
      snd (r_run k (snd (r_run k s xs)) ys))"
  by (induction xs arbitrary: s) (auto simp: r_run_Cons simp del: r_run.simps(2))

lemma as_json_append: "as_json (xs @ ys) = as_json xs @ as_json ys"
  by (simp add: as_json_def)

lemma f_run_length: "length (fst (f_run k s rs)) = length rs"
  by (induction rs arbitrary: s) (auto simp: f_run_Cons simp del: f_run.simps(2))

lemma r_run_length: "length (fst (r_run k s rs)) = length rs"
  by (induction rs arbitrary: s) (auto simp: r_run_Cons simp del: r_run.simps(2))

subsection \<open>Sessions expire lazily\<close>

lemma bearer_prefix: "token \<noteq> [] \<Longrightarrow> bearer (''Bearer '' @ token) = Some token"
  by (simp add: bearer_def)

lemma getAuth_issued:
  "token \<noteq> [] \<Longrightarrow> ss token = Some sess \<Longrightarrow>
   getAuth ss (''Bearer '' @ token) t' =
     (if t' \<le> sess_expires sess then (Some (sess_username sess), ss)
      else (None, ss(token := None)))"
  by (simp add: getAuth_def bearer_prefix not_less del: append.simps)

lemma f_login_200:
  "f_login k ev s u p = ((200, b), s') \<Longrightarrow>
   b = BSession (rnd_hex ev) u \<and>
   s' = s\<lparr>f_sessions := (f_sessions s)(rnd_hex ev \<mapsto>
           \<lparr>sess_username = u, sess_expires = now_ms ev + TOKEN_TTL_MS\<rparr>)\<rparr>"
  by (auto simp: f_login_def Let_def split: user_prop.splits if_splits)

lemma r_login_200:
  "r_login k ev s u p = ((200, b), s') \<Longrightarrow>
   b = BSession (rnd_hex ev) u \<and>
   s' = s\<lparr>r_sessions := (r_sessions s)(rnd_hex ev \<mapsto>
           \<lparr>sess_username = u, sess_expires = now_ms ev + TOKEN_TTL_MS\<rparr>)\<rparr>"
  by (auto simp: r_login_def Let_def no_pool_def db_error_def split: option.splits if_splits)

lemma me_after_auth:
  "f_me ev s auth =
     (case getAuth (f_sessions s) auth (now_ms ev) of
        (None, ss) \<Rightarrow> ((401, BError ''Unauthorized''), s\<lparr>f_sessions := ss\<rparr>)
      | (Some user, ss) \<Rightarrow> ((200, BMe user), s\<lparr>f_sessions := ss\<rparr>))"
  "r_me ev t auth =
     (case getAuth (r_sessions t) auth (now_ms ev) of
        (None, ss) \<Rightarrow> ((401, BError ''Unauthorized''), t\<lparr>r_sessions := ss\<rparr>)
      | (Some user, ss) \<Rightarrow> ((200, BMe user), t\<lparr>r_sessions := ss\<rparr>))"
  by (simp_all add: f_me_def r_me_def)

section \<open>Evaluating the examples\<close>

lemma valid_alice: "isValidUser ''alice''" "isValidPassword ''secret1''"
  by (simp_all add: isValidUser_def isValidPassword_def user_char_def)

lemma pg_names: "pg_text ''alice''" "pg_text ''bob''" "pg_text ''work''" "pg_text ''new''"
  by (simp_all add: pg_text_def)

text \<open>The database reads the printed form of a UUID as itself, reads its upper-case
  spelling and its spelling in braces without hyphens as the same UUID, and refuses
  \<open>id-9\<close>.\<close>

lemma uuid_in_examples:
  "uuid_in ''a0000000-0000-4000-8000-000000000005'' = Some ''a0000000-0000-4000-8000-000000000005''"
  "uuid_in ''a0000000-0000-4000-8000-000000000007'' = Some ''a0000000-0000-4000-8000-000000000007''"
  "uuid_in ''A0000000-0000-4000-8000-000000000005'' = Some ''a0000000-0000-4000-8000-000000000005''"
  "uuid_in ''{a0000000000040008000000000000005}'' = Some ''a0000000-0000-4000-8000-000000000005''"
  "uuid_in ''id-9'' = None"
  by (simp_all add: uuid_in_def uuid_out_def lower_hex_def eval_nat_numeral)

lemma f_alice_users:
  "f_users f_alice =
     [''alice'' \<mapsto> \<lparr>u_salt = ''5a17'', u_hash = ''5a17:secret1'', u_iterations = 120000,
                    u_createdAt = ''2026-01-01T00:00:01.000Z''\<rparr>]"
  by (simp add: f_alice_def f_register_def valid_alice users_get_def f_init_def
      object_prototype_keys_def Let_def env1_def hashPassword_def toy_pbkdf2_def)

lemma f_alice_rest: "f_vaults f_alice = [''alice'' \<mapsto> []]" "f_sessions f_alice = Map.empty"
  by (simp_all add: f_alice_def f_register_def valid_alice users_get_def f_init_def
      object_prototype_keys_def Let_def ensureUserVault_def)

lemma r_alice_pool:
  "r_pool r_alice =
     Some \<lparr>db_users = [''alice'' \<mapsto> \<lparr>d_salt = ''5a17'', d_hash = ''5a17:secret1'',
                                     d_iterations = 120000, d_created_at = 1000\<rparr>],
           db_entries = []\<rparr>"
  by (simp add: r_alice_def r_register_def valid_alice r_init_def Let_def env1_def
      hashPassword_def toy_pbkdf2_def)

lemma r_alice_rest: "r_sessions r_alice = Map.empty"
  by (simp add: r_alice_def r_register_def valid_alice r_init_def Let_def)

lemma f_login_alice:
  "f_login toy_pbkdf2 env2 f_alice ''alice'' ''secret1'' =
     ((200, BSession ''70ce'' ''alice''), f_alice_in)"
  by (simp add: f_alice_in_def prod_eq_iff f_login_def users_get_def f_alice_users
      verifyPassword_def hashPassword_def toy_pbkdf2_def Let_def env2_def)

lemma r_login_alice:
  "r_login toy_pbkdf2 env2 r_alice ''alice'' ''secret1'' =
     ((200, BSession ''70ce'' ''alice''), r_alice_in)"
  by (simp add: r_alice_in_def prod_eq_iff r_login_def r_alice_pool pg_names
      verifyPassword_def hashPassword_def toy_pbkdf2_def Let_def env2_def)

lemma f_alice_in_fields:
  "f_users f_alice_in = f_users f_alice" "f_vaults f_alice_in = f_vaults f_alice"
  "f_sessions f_alice_in =
     [''70ce'' \<mapsto> \<lparr>sess_username = ''alice'', sess_expires = 86402000\<rparr>]"
  by (simp_all add: f_alice_in_def f_login_def users_get_def f_alice_users f_alice_rest
      verifyPassword_def hashPassword_def toy_pbkdf2_def Let_def env2_def TOKEN_TTL_MS_def)

lemmas eval_defs =
  f_handler_defs r_handler_defs users_get_def object_prototype_keys_def Let_def
  hashPassword_def verifyPassword_def toy_pbkdf2_def isValidUser_def isValidPassword_def
  user_char_def getAuth_def bearer_def TOKEN_TTL_MS_def ensureUserVault_def loadEntries_def
  saveEntries_def body_or_empty_def to_obj_def text_field_def truthy_text_def
  no_pool_def db_error_def as_json_def pg_text_def insert_params_def opt_text_def
  env1_def env2_def env3_def env4_def env5_def env6_def env7_def f_init_def r_init_def

lemma f_two_sessions:
  "f_sessions f_two =
     [''70ce'' \<mapsto> \<lparr>sess_username = ''alice'', sess_expires = 86402000\<rparr>,
      ''b0b5'' \<mapsto> \<lparr>sess_username = ''bob'', sess_expires = 86404000\<rparr>]"
  by (simp add: f_two_def story_def body_x_def body_y_def eval_defs)

lemma f_two_vaults:
  "f_vaults f_two =
     [''alice'' \<mapsto> [f_new_entry env5 ''alice'' (to_obj body_x)],
      ''bob'' \<mapsto> [f_new_entry env6 ''bob'' (to_obj body_y)]]"
  by (simp add: f_two_def story_def body_x_def body_y_def eval_defs)

lemma r_two_sessions:
  "r_sessions r_two =
     [''70ce'' \<mapsto> \<lparr>sess_username = ''alice'', sess_expires = 86402000\<rparr>,
      ''b0b5'' \<mapsto> \<lparr>sess_username = ''bob'', sess_expires = 86404000\<rparr>]"
  by (simp add: r_two_def story_def body_x_def body_y_def eval_defs)

lemma r_two_rows:
  "r_rows r_two = [r_new_row env5 ''alice'' body_x, r_new_row env6 ''bob'' body_y]"
  by (simp add: r_two_def r_rows_def story_def body_x_def body_y_def eval_defs r_new_row_def)

lemma f_two_bob: "fst (getAuth (f_sessions f_two) ''Bearer b0b5'' (now_ms env7)) = Some ''bob''"
  by (simp add: f_two_sessions getAuth_def bearer_def env7_def)

lemma r_two_bob: "fst (getAuth (r_sessions r_two) ''Bearer b0b5'' (now_ms env7)) = Some ''bob''"
  by (simp add: r_two_sessions getAuth_def bearer_def env7_def)

lemma f_two_alice: "fst (getAuth (f_sessions f_two) ''Bearer 70ce'' (now_ms env7)) = Some ''alice''"
  by (simp add: f_two_sessions getAuth_def bearer_def env7_def)

lemma r_two_alice: "fst (getAuth (r_sessions r_two) ''Bearer 70ce'' (now_ms env7)) = Some ''alice''"
  by (simp add: r_two_sessions getAuth_def bearer_def env7_def)

lemma r_two_pool:
  "r_pool r_two =
     Some \<lparr>db_users =
             [''alice'' \<mapsto> \<lparr>d_salt = ''5a17'', d_hash = ''5a17:secret1'',
                            d_iterations = 120000, d_created_at = 1000\<rparr>,
              ''bob'' \<mapsto> \<lparr>d_salt = ''9d0c'', d_hash = ''9d0c:hunter22'',
                          d_iterations = 120000, d_created_at = 3000\<rparr>],
           db_entries = [r_new_row env5 ''alice'' body_x, r_new_row env6 ''bob'' body_y]\<rparr>"
  by (simp add: r_two_def story_def body_x_def body_y_def eval_defs r_new_row_def)

lemma f_two_bob_auth:
  "getAuth (f_sessions f_two) ''Bearer b0b5'' (now_ms env7) = (Some ''bob'', f_sessions f_two)"
  by (simp add: f_two_sessions getAuth_def bearer_def env7_def)

lemma r_two_bob_auth:
  "getAuth (r_sessions r_two) ''Bearer b0b5'' (now_ms env7) = (Some ''bob'', r_sessions r_two)"
  by (simp add: r_two_sessions getAuth_def bearer_def env7_def)

lemma rnd_uuid_env7: "rnd_uuid env7 = ''a0000000-0000-4000-8000-000000000007''"
  by (simp add: env7_def)

lemma f_add_z_fst:
  "fst (f_addEntry env7 f_two ''Bearer b0b5'' (Some (to_obj body_z))) =
     (201, BEntry (f_new_entry env7 ''bob'' (to_obj body_z)))"
  by (simp add: f_two_bob_auth f_addEntry_def Let_def body_or_empty_def to_obj_def text_field_def
      body_z_def body_y_def loadEntries_def split: prod.splits option.splits)

lemma r_add_z_fst:
  "fst (r_addEntry env7 r_two ''Bearer b0b5'' (Some body_z)) =
     (201, BEntry (r_new_row env7 ''bob'' body_z))"
  by (simp add: r_two_bob_auth r_addEntry_def r_two_pool Let_def truthy_text_def r_new_row_def
      body_z_def body_y_def env5_def env6_def rnd_uuid_env7 pg_text_def insert_params_def
      opt_text_def split: prod.splits option.splits)

lemma f_two_owned:
  "f_owned f_two ''alice'' = [f_new_entry env5 ''alice'' (to_obj body_x)]"
  "f_owned f_two ''bob'' = [f_new_entry env6 ''bob'' (to_obj body_y)]"
  by (simp_all add: f_owned_def f_two_vaults)

lemma entry_x_fields:
  "f_new_entry env5 ''alice'' (to_obj body_x) ''id'' =
     Some (JStr ''a0000000-0000-4000-8000-000000000005'')"
  "f_new_entry env5 ''alice'' (to_obj body_x) ''url'' = Some (JStr ''https://x.com'')"
  "f_new_entry env5 ''alice'' (to_obj body_x) ''owner'' = Some (JStr ''alice'')"
  "f_new_entry env5 ''alice'' (to_obj body_x) ''note'' = Some (JStr ''old'')"
  "f_new_entry env5 ''alice'' (to_obj body_x) ''tags'' = Some (JArr [JStr ''work''])"
  "f_new_entry env5 ''alice'' (to_obj body_x) ''category'' = None"
  "f_new_entry env5 ''alice'' (to_obj body_x) ''createdAt'' =
     Some (JStr ''2026-01-01T00:00:05.000Z'')"
  "f_new_entry env5 ''alice'' (to_obj body_x) ''updatedAt'' =
     Some (JStr ''2026-01-01T00:00:05.000Z'')"
  by (simp_all add: f_new_entry_def to_obj_def text_field_def body_x_def env5_def)

lemma entry_y_fields:
  "f_new_entry env6 ''bob'' (to_obj body_y) ''id'' =
     Some (JStr ''a0000000-0000-4000-8000-000000000006'')"
  "f_new_entry env6 ''bob'' (to_obj body_y) ''owner'' = Some (JStr ''bob'')"
  "f_new_entry env6 ''bob'' (to_obj body_y) ''tags'' = Some (JArr [])"
  "f_new_entry env6 ''bob'' (to_obj body_y) ''category'' = None"
  by (simp_all add: f_new_entry_def to_obj_def text_field_def body_y_def env6_def)

lemma entry_z_fields:
  "f_new_entry env7 ''bob'' (to_obj body_z) ''id'' =
     Some (JStr ''a0000000-0000-4000-8000-000000000007'')"
  "f_new_entry env7 ''bob'' (to_obj body_z) ''owner'' = Some (JStr ''alice'')"
  by (simp_all add: f_new_entry_def to_obj_def text_field_def body_z_def body_y_def env7_def)

lemma row_x:
  "r_new_row env5 ''alice'' body_x =
     \<lparr>r_id = ''a0000000-0000-4000-8000-000000000005'', r_owner = ''alice'', r_url = ''https://x.com'', r_username = ''a'',
      r_password_encrypted = ''ct1'', r_favicon_url = None, r_note = Some ''old'',
      r_tags = Some [''work''], r_created_at = 5000, r_updated_at = 5000\<rparr>"
  by (simp add: r_new_row_def body_x_def env5_def truthy_text_def)

lemma row_y:
  "r_new_row env6 ''bob'' body_y =
     \<lparr>r_id = ''a0000000-0000-4000-8000-000000000006'', r_owner = ''bob'', r_url = ''https://y.org'', r_username = ''b'',
      r_password_encrypted = ''ct2'', r_favicon_url = None, r_note = None,
      r_tags = Some [], r_created_at = 6000, r_updated_at = 6000\<rparr>"
  by (simp add: r_new_row_def body_y_def env6_def truthy_text_def)

lemma row_z:
  "r_new_row env7 ''bob'' body_z =
     \<lparr>r_id = ''a0000000-0000-4000-8000-000000000007'', r_owner = ''alice'', r_url = ''https://y.org'', r_username = ''b'',
      r_password_encrypted = ''ct2'', r_favicon_url = None, r_note = None,
      r_tags = Some [], r_created_at = 7000, r_updated_at = 7000\<rparr>"
  by (simp add: r_new_row_def body_z_def body_y_def env7_def truthy_text_def)

lemma env7_fields:
  "now_ms env7 = 7000" "now_iso env7 = ''2026-01-01T00:00:07.000Z''" "db_now env7 = 7000"
  "rnd_uuid env7 = ''a0000000-0000-4000-8000-000000000007''"
  by (simp_all add: env7_def)

lemma env8_fields:
  "now_ms env8 = 8000" "now_iso env8 = ''2026-01-01T00:00:08.000Z''" "db_now env8 = 8000"
  by (simp_all add: env8_def)

lemma set_note_fields:
  "b_url set_note = None" "b_username set_note = None" "b_owner set_note = None"
  "b_tags set_note = TagsAbsent" "b_note set_note = Some ''new''"
  "b_passwordEncrypted set_note = None" "b_faviconUrl set_note = None"
  by (simp_all add: set_note_def)

lemma clear_note_fields:
  "b_url clear_note = None" "b_username clear_note = None" "b_owner clear_note = None"
  "b_tags clear_note = TagsAbsent" "b_note clear_note = Some []"
  "b_passwordEncrypted clear_note = None" "b_faviconUrl clear_note = None"
  by (simp_all add: clear_note_def set_note_def)

lemma to_obj_clear_note:
  "to_obj clear_note k = (if k = ''note'' then Some (JStr []) else None)"
  by (simp add: to_obj_def text_field_def clear_note_def set_note_def)

lemma set_note_params: "set_params set_note = [''new'']"
  by (simp add: set_params_def set_note_fields truthy_text_def opt_text_def)

lemma clear_note_params: "set_params clear_note = []"
  by (simp add: set_params_def clear_note_fields truthy_text_def opt_text_def)

lemma r_two_some: "r_pool r_two \<noteq> None"
  by (simp add: r_two_pool)

text \<open>The states after bob's request with \<^verbatim>\<open>owner: "alice"\<close>.\<close>

lemma body_z_truthy:
  "truthy (body_or_empty (Some (to_obj body_z)) ''url'')"
  "truthy (body_or_empty (Some (to_obj body_z)) ''username'')"
  "truthy (body_or_empty (Some (to_obj body_z)) ''passwordEncrypted'')"
  by (simp_all add: body_or_empty_def to_obj_def text_field_def body_z_def body_y_def)

lemma f_three_sessions: "f_sessions f_three = f_sessions f_two"
  unfolding f_three_def by (rule f_add_effect(4)[OF f_two_bob body_z_truthy])

lemma f_three_owned:
  "f_owned f_three ''bob'' =
     [f_new_entry env7 ''bob'' (to_obj body_z), f_new_entry env6 ''bob'' (to_obj body_y)]"
  "f_owned f_three ''alice'' = [f_new_entry env5 ''alice'' (to_obj body_x)]"
  unfolding f_three_def
  by (simp_all add: f_add_effect(2,3)[OF f_two_bob body_z_truthy] f_two_owned body_or_empty_def)

lemma f_three_bob:
  "fst (getAuth (f_sessions f_three) ''Bearer b0b5'' (now_ms env8)) = Some ''bob''"
  by (simp add: f_three_sessions f_two_sessions getAuth_def bearer_def env8_fields)

lemma f_three_alice:
  "fst (getAuth (f_sessions f_three) ''Bearer 70ce'' (now_ms env8)) = Some ''alice''"
  by (simp add: f_three_sessions f_two_sessions getAuth_def bearer_def env8_fields)

lemma r_three_pool:
  "r_pool r_three =
     Some \<lparr>db_users =
             [''alice'' \<mapsto> \<lparr>d_salt = ''5a17'', d_hash = ''5a17:secret1'',
                            d_iterations = 120000, d_created_at = 1000\<rparr>,
              ''bob'' \<mapsto> \<lparr>d_salt = ''9d0c'', d_hash = ''9d0c:hunter22'',
                          d_iterations = 120000, d_created_at = 3000\<rparr>],
           db_entries = [r_new_row env5 ''alice'' body_x, r_new_row env6 ''bob'' body_y,
                         r_new_row env7 ''bob'' body_z]\<rparr>"
  by (simp add: r_three_def r_two_bob_auth r_addEntry_def r_two_pool Let_def truthy_text_def
      r_new_row_def body_z_def body_y_def env5_def env6_def rnd_uuid_env7 pg_text_def
      insert_params_def opt_text_def)

lemma r_three_sessions: "r_sessions r_three = r_sessions r_two"
  by (simp add: r_three_def r_two_bob_auth r_addEntry_def r_two_pool Let_def truthy_text_def
      r_new_row_def body_z_def body_y_def env5_def env6_def rnd_uuid_env7 pg_text_def
      insert_params_def opt_text_def)

lemma r_three_some: "r_pool r_three \<noteq> None"
  by (simp add: r_three_pool)

lemma r_three_rows:
  "r_rows r_three =
     [r_new_row env5 ''alice'' body_x, r_new_row env6 ''bob'' body_y,
      r_new_row env7 ''bob'' body_z]"
  by (simp add: r_rows_def r_three_pool)

lemma r_three_bob:
  "fst (getAuth (r_sessions r_three) ''Bearer b0b5'' (now_ms env8)) = Some ''bob''"
  by (simp add: r_three_sessions r_two_sessions getAuth_def bearer_def env8_fields)

lemma r_three_alice:
  "fst (getAuth (r_sessions r_three) ''Bearer 70ce'' (now_ms env8)) = Some ''alice''"
  by (simp add: r_three_sessions r_two_sessions getAuth_def bearer_def env8_fields)

text \<open>What the database refuses, at alice's requests after the two-user run: an id that
  is no UUID, and a note or a category with the character U+0000. It reads the upper-case
  spelling of the id of her row as that id.\<close>

lemma refused_examples:
  "r_deleteEntry env7 r_two ''Bearer 70ce'' ''id-9'' = ((500, BError ''Database error''), r_two)"
  "r_updateEntry env7 r_two ''Bearer 70ce'' ''a0000000-0000-4000-8000-000000000005''
     (Some (set_note\<lparr>b_note := Some [CHR ''a'', CHR 0x00]\<rparr>)) =
     ((500, BError ''Database error''), r_two)"
  "r_deleteCategory env7 r_two ''Bearer 70ce'' [CHR ''a'', CHR 0x00] =
     ((500, BError ''Database error''), r_two)"
  by (simp_all add: r_deleteEntry_def r_updateEntry_def r_deleteCategory_def
      getAuth_Some[OF r_two_alice] r_two_pool uuid_in_examples db_error_def set_params_def
      set_note_def truthy_text_def opt_text_def pg_text_def)

lemma upper_case_id:
  "fst (fst (r_updateEntry env7 r_two ''Bearer 70ce'' ''A0000000-0000-4000-8000-000000000005''
               (Some set_note))) = 200"
  "map r_note (r_rows (snd (r_updateEntry env7 r_two ''Bearer 70ce''
               ''A0000000-0000-4000-8000-000000000005'' (Some set_note)))) =
     [Some ''new'', None]"
  "fst (r_deleteEntry env7 r_two ''Bearer 70ce'' ''A0000000-0000-4000-8000-000000000005'') =
     (200, BOk)"
  by (simp_all add: r_update_effect[OF r_two_alice r_two_some uuid_in_examples(3)]
      r_delete_effect[OF r_two_alice r_two_some uuid_in_examples(3)]
      set_note_params pg_names r_two_rows row_x row_y r_set_def set_note_fields truthy_text_def)

text \<open>A category of white space only is refused, the no-break space included.\<close>

lemma blank_category:
  "\<not> valid_category (Some (JStr [CHR 0x20, CHR 0xA0, CHR 0x09]))"
  "valid_category (Some (JStr ''work''))"
  by (simp_all add: ws_char_def)

lemma valid_constructor: "isValidUser ''constructor''"
  by (simp add: isValidUser_def user_char_def)

lemma story_statuses:
  "map fst (fst (f_run toy_pbkdf2 f_init (as_json story))) = [201, 200, 201, 200, 201, 201]"
  "map fst (fst (r_run toy_pbkdf2 r_init story)) = [201, 200, 201, 200, 201, 201]"
  by (simp_all add: story_def body_x_def body_y_def eval_defs r_new_row_def)

lemma f_tail:
  "fst (f_run toy_pbkdf2 f_two
          (as_json [(env7, ListCategories ''Bearer 70ce''),
                    (env8, UpdateEntry ''Bearer 70ce''
                             ''a0000000-0000-4000-8000-000000000005'' None)])) =
     [(200, BCategories []),
      (200, BEntry (f_merge (now_iso env8) Map.empty
                      (f_new_entry env5 ''alice'' (to_obj body_x))))]"
  by (simp add: as_json_def f_listCategories_def f_updateEntry_def f_two_sessions f_two_vaults
      getAuth_def bearer_def env7_fields env8_fields loadEntries_def saveEntries_def
      file_categories_def entry_x_fields body_or_empty_def Let_def)

lemma r_tail:
  "fst (r_run toy_pbkdf2 r_two
          [(env7, ListCategories ''Bearer 70ce''),
           (env8, UpdateEntry ''Bearer 70ce'' ''a0000000-0000-4000-8000-000000000005'' None)]) =
     [(200, BCategories [JStr ''work'']), (500, BError ''Database error'')]"
  by (simp add: r_listCategories_def r_updateEntry_def r_two_sessions r_two_pool
      getAuth_def bearer_def env7_fields env8_fields db_categories_def owned_def row_tags_def
      row_x row_y db_error_def Let_def)

section \<open>Claim C1: ownership isolation\<close>

text \<open>
  Claim C1 at the entry that bob's request creates with \<^verbatim>\<open>owner: "alice"\<close> in its body
  (\<open>body_z\<close>), after the two-user run; both servers answer 201. The file-backed server
  keeps the entry, whose owner is alice, in bob's vault: it is returned to bob's
  listEntries, and bob's updateEntry and deleteEntry of it are answered 200, while alice's
  listEntries does not return it. The relational server stores the row that bob created
  under alice: it is returned to alice's listEntries and not to bob's, alice's updateEntry
  and deleteEntry of it are answered 200, and bob's deleteEntry of it is answered 404.
  Whichever of the two users the entry was created under, one server serves it to the
  other.
\<close>

theorem foreign_owner_entry:
  "fst (getAuth (f_sessions f_three) ''Bearer b0b5'' (now_ms env8)) = Some ''bob''
   \<and> fst (getAuth (f_sessions f_three) ''Bearer 70ce'' (now_ms env8)) = Some ''alice''
   \<and> fst (f_addEntry env7 f_two ''Bearer b0b5'' (Some (to_obj body_z))) =
       (201, BEntry (f_new_entry env7 ''bob'' (to_obj body_z)))
   \<and> map (\<lambda>e. (e ''id'', e ''owner''))
        (returned (fst (f_listEntries env8 f_three ''Bearer b0b5''))) =
       [(Some (JStr ''a0000000-0000-4000-8000-000000000007''), Some (JStr ''alice'')),
        (Some (JStr ''a0000000-0000-4000-8000-000000000006''), Some (JStr ''bob''))]
   \<and> fst (fst (f_updateEntry env8 f_three ''Bearer b0b5'' ''a0000000-0000-4000-8000-000000000007''
                  (Some (to_obj set_note)))) = 200
   \<and> fst (f_deleteEntry env8 f_three ''Bearer b0b5'' ''a0000000-0000-4000-8000-000000000007'') = (200, BOk)
   \<and> map (\<lambda>e. (e ''id'', e ''owner''))
        (returned (fst (f_listEntries env8 f_three ''Bearer 70ce''))) =
       [(Some (JStr ''a0000000-0000-4000-8000-000000000005''), Some (JStr ''alice''))]
   \<and> fst (getAuth (r_sessions r_three) ''Bearer b0b5'' (now_ms env8)) = Some ''bob''
   \<and> fst (getAuth (r_sessions r_three) ''Bearer 70ce'' (now_ms env8)) = Some ''alice''
   \<and> fst (r_addEntry env7 r_two ''Bearer b0b5'' (Some body_z)) =
       (201, BEntry (r_new_row env7 ''bob'' body_z))
   \<and> map (\<lambda>r. (r_id r, r_owner r))
        (returned (fst (r_listEntries env8 r_three ''Bearer 70ce''))) =
       [(''a0000000-0000-4000-8000-000000000007'', ''alice''), (''a0000000-0000-4000-8000-000000000005'', ''alice'')]
   \<and> map (\<lambda>r. (r_id r, r_owner r))
        (returned (fst (r_listEntries env8 r_three ''Bearer b0b5''))) =
       [(''a0000000-0000-4000-8000-000000000006'', ''bob'')]
   \<and> fst (fst (r_updateEntry env8 r_three ''Bearer 70ce'' ''a0000000-0000-4000-8000-000000000007'' (Some set_note))) = 200
   \<and> fst (r_deleteEntry env8 r_three ''Bearer 70ce'' ''a0000000-0000-4000-8000-000000000007'') = (200, BOk)
   \<and> fst (r_deleteEntry env8 r_three ''Bearer b0b5'' ''a0000000-0000-4000-8000-000000000007'') = (404, BError ''Not found'')"
proof -
  have 1: "fst (f_addEntry env7 f_two ''Bearer b0b5'' (Some (to_obj body_z))) =
       (201, BEntry (f_new_entry env7 ''bob'' (to_obj body_z)))"
    by (rule f_add_z_fst)
  have 2: "map (\<lambda>e. (e ''id'', e ''owner''))
        (returned (fst (f_listEntries env8 f_three ''Bearer b0b5''))) =
       [(Some (JStr ''a0000000-0000-4000-8000-000000000007''), Some (JStr ''alice'')),
        (Some (JStr ''a0000000-0000-4000-8000-000000000006''), Some (JStr ''bob''))]"
    by (simp add: f_list_as[OF f_three_bob] returned_def f_three_owned entry_y_fields
        entry_z_fields)
  have 3: "fst (fst (f_updateEntry env8 f_three ''Bearer b0b5'' ''a0000000-0000-4000-8000-000000000007''
                  (Some (to_obj set_note)))) = 200"
    by (simp add: f_update_effect(2)[OF f_three_bob] f_three_owned entry_z_fields)
  have 4: "fst (f_deleteEntry env8 f_three ''Bearer b0b5'' ''a0000000-0000-4000-8000-000000000007'') = (200, BOk)"
    by (simp add: f_delete_effect(1)[OF f_three_bob] f_three_owned entry_z_fields)
  have 5: "map (\<lambda>e. (e ''id'', e ''owner''))
        (returned (fst (f_listEntries env8 f_three ''Bearer 70ce''))) =
       [(Some (JStr ''a0000000-0000-4000-8000-000000000005''), Some (JStr ''alice''))]"
    by (simp add: f_list_as[OF f_three_alice] returned_def f_three_owned entry_x_fields)
  have 6: "fst (r_addEntry env7 r_two ''Bearer b0b5'' (Some body_z)) =
       (201, BEntry (r_new_row env7 ''bob'' body_z))"
    by (rule r_add_z_fst)
  have 7: "map (\<lambda>r. (r_id r, r_owner r))
        (returned (fst (r_listEntries env8 r_three ''Bearer 70ce''))) =
       [(''a0000000-0000-4000-8000-000000000007'', ''alice''), (''a0000000-0000-4000-8000-000000000005'', ''alice'')]"
    by (simp add: r_listEntries_def getAuth_Some[OF r_three_alice] r_three_pool returned_def
        newest_first_def owned_def row_x row_y row_z)
  have 8: "map (\<lambda>r. (r_id r, r_owner r))
        (returned (fst (r_listEntries env8 r_three ''Bearer b0b5''))) =
       [(''a0000000-0000-4000-8000-000000000006'', ''bob'')]"
    by (simp add: r_listEntries_def getAuth_Some[OF r_three_bob] r_three_pool returned_def
        newest_first_def owned_def row_x row_y row_z)
  have 9: "fst (fst (r_updateEntry env8 r_three ''Bearer 70ce'' ''a0000000-0000-4000-8000-000000000007'' (Some set_note))) = 200"
    by (simp add: r_update_effect(2)[OF r_three_alice r_three_some uuid_in_examples(2)]
        set_note_params r_three_rows row_x row_y row_z pg_names)
  have 10: "fst (r_deleteEntry env8 r_three ''Bearer 70ce'' ''a0000000-0000-4000-8000-000000000007'') = (200, BOk)"
    by (simp add: r_delete_effect(1)[OF r_three_alice r_three_some uuid_in_examples(2)]
        r_three_rows row_x row_y row_z)
  have 11: "fst (r_deleteEntry env8 r_three ''Bearer b0b5'' ''a0000000-0000-4000-8000-000000000007'') =
       (404, BError ''Not found'')"
    by (simp add: r_delete_effect(1)[OF r_three_bob r_three_some uuid_in_examples(2)]
        r_three_rows row_x row_y row_z)
  from f_three_bob f_three_alice r_three_bob r_three_alice 1 2 3 4 5 6 7 8 9 10 11
  show ?thesis by simp
qed

section \<open>Claim C2: the two servers on one run\<close>

text \<open>
  Claim C2 on the run \<open>story2\<close>, served by both servers from their empty states. The
  answers to the first six requests have the same status codes. To alice's
  listCategories the file-backed server answers with no category and the relational
  server with \<open>work\<close>; to her update with an empty body the file-backed server
  answers 200 and the relational server 500 \<open>Database error\<close>.
\<close>

theorem backends_diverge:
  "map fst (fst (f_run toy_pbkdf2 f_init (as_json story2))) =
     [201, 200, 201, 200, 201, 201, 200, 200]
   \<and> map fst (fst (r_run toy_pbkdf2 r_init story2)) =
     [201, 200, 201, 200, 201, 201, 200, 500]
   \<and> fst (f_run toy_pbkdf2 f_init (as_json story2)) ! 6 = (200, BCategories [])
   \<and> fst (r_run toy_pbkdf2 r_init story2) ! 6 = (200, BCategories [JStr ''work''])
   \<and> fst (r_run toy_pbkdf2 r_init story2) ! 7 = (500, BError ''Database error'')"
proof -
  have f: "fst (f_run toy_pbkdf2 f_init (as_json story2)) =
      fst (f_run toy_pbkdf2 f_init (as_json story)) @
      [(200, BCategories []),
       (200, BEntry (f_merge (now_iso env8) Map.empty
          (f_new_entry env5 ''alice'' (to_obj body_x))))]"
    unfolding story2_def as_json_append f_run_append f_two_def[symmetric]
    by (simp only: fst_conv f_tail)
  have r: "fst (r_run toy_pbkdf2 r_init story2) =
      fst (r_run toy_pbkdf2 r_init story) @
      [(200, BCategories [JStr ''work'']), (500, BError ''Database error'')]"
    unfolding story2_def r_run_append r_two_def[symmetric]
    by (simp only: fst_conv r_tail)
  have lf: "length (fst (f_run toy_pbkdf2 f_init (as_json story))) = 6"
    by (simp only: f_run_length) (simp add: as_json_def story_def)
  have lr: "length (fst (r_run toy_pbkdf2 r_init story)) = 6"
    by (simp only: r_run_length) (simp add: story_def)
  show ?thesis
    by (simp add: f r story_statuses nth_append lf lr)
qed

section \<open>Claim C3: at most one registration per username\<close>

text \<open>
  Claim C3, as the code has it. In every run of either server, from any state, at most
  one request that registers \<open>u\<close> is answered 201. Once the user store holds a record
  for \<open>u\<close>, then after any further requests a registration of \<open>u\<close> is refused and the
  whole state, the user store included, is left as it was: with 409 \<open>User exists\<close> when
  the username and the password are well formed, and with 400
  \<open>Invalid username or password\<close> when they are not, since both servers test
  \<open>isValidUser\<close> and \<open>isValidPassword\<close> before they look the user up.
\<close>

theorem register_unique:
  "register_successes u (map snd rs) (fst (f_run k s rs)) \<le> 1
   \<and> register_successes u (map snd rs') (fst (r_run k t rs')) \<le> 1
   \<and> (f_users s u \<noteq> None \<longrightarrow>
        f_handle k ev (snd (f_run k s rs)) (Register u p) =
          ((if isValidUser u \<and> isValidPassword p then (409, BError ''User exists'')
            else (400, BError ''Invalid username or password'')),
           snd (f_run k s rs)))
   \<and> (r_users t u \<noteq> None \<longrightarrow>
        r_handle k ev (snd (r_run k t rs')) (Register u p) =
          ((if isValidUser u \<and> isValidPassword p then (409, BError ''User exists'')
            else (400, BError ''Invalid username or password'')),
           snd (r_run k t rs')))"
proof (intro conjI impI)
  show "register_successes u (map snd rs) (fst (f_run k s rs)) \<le> 1"
    by (rule f_at_most_one)
  show "register_successes u (map snd rs') (fst (r_run k t rs')) \<le> 1"
    by (rule r_at_most_one)
next
  assume "f_users s u \<noteq> None"
  then obtain rec where "f_users s u = Some rec" by auto
  then have "f_users (snd (f_run k s rs)) u = Some rec"
    by (rule f_run_users_kept)
  then show "f_handle k ev (snd (f_run k s rs)) (Register u p) =
          ((if isValidUser u \<and> isValidPassword p then (409, BError ''User exists'')
            else (400, BError ''Invalid username or password'')),
           snd (f_run k s rs))"
    by (simp add: f_register_taken)
next
  assume "r_users t u \<noteq> None"
  then obtain rec where "r_users t u = Some rec" by auto
  then have "r_users (snd (r_run k t rs')) u = Some rec"
    by (rule r_run_users_kept)
  then show "r_handle k ev (snd (r_run k t rs')) (Register u p) =
          ((if isValidUser u \<and> isValidPassword p then (409, BError ''User exists'')
            else (400, BError ''Invalid username or password'')),
           snd (r_run k t rs'))"
    by (simp add: r_register_taken)
qed

text \<open>The theorem at alice, who is registered: after a login, a second registration
  with the password \<open>secret2\<close> is answered 409 by both servers, and in the run of two
  registrations of alice one is answered 201.\<close>

theorem register_unique_witness:
  "f_users f_alice ''alice'' \<noteq> None \<and> r_users r_alice ''alice'' \<noteq> None
   \<and> f_handle toy_pbkdf2 env3
        (snd (f_run toy_pbkdf2 f_alice [(env2, Login ''alice'' ''secret1'')]))
        (Register ''alice'' ''secret2'') =
       ((409, BError ''User exists''),
        snd (f_run toy_pbkdf2 f_alice [(env2, Login ''alice'' ''secret1'')]))
   \<and> r_handle toy_pbkdf2 env3
        (snd (r_run toy_pbkdf2 r_alice [(env2, Login ''alice'' ''secret1'')]))
        (Register ''alice'' ''secret2'') =
       ((409, BError ''User exists''),
        snd (r_run toy_pbkdf2 r_alice [(env2, Login ''alice'' ''secret1'')]))
   \<and> register_successes ''alice''
        (map snd ([(env1, Register ''alice'' ''secret1''), (env2, Register ''alice'' ''secret2'')]
                  :: (env \<times> obj request) list))
        (fst (f_run toy_pbkdf2 f_init
           [(env1, Register ''alice'' ''secret1''), (env2, Register ''alice'' ''secret2'')])) \<le> 1
   \<and> map fst (fst (f_run toy_pbkdf2 f_init
           [(env1, Register ''alice'' ''secret1''), (env2, Register ''alice'' ''secret2'')])) =
       [201, 409]"
proof -
  have v: "isValidUser ''alice'' \<and> isValidPassword ''secret2''"
    by (simp add: isValidUser_def isValidPassword_def user_char_def)
  have f: "f_users f_alice ''alice'' \<noteq> None" by (simp add: f_alice_users)
  have r: "r_users r_alice ''alice'' \<noteq> None" by (simp add: r_users_def r_alice_pool)
  note t1 = register_unique[where u = "''alice''" and p = "''secret2''"
      and rs = "[(env2, Login ''alice'' ''secret1'')]"
      and k = toy_pbkdf2 and s = f_alice and rs' = "[(env2, Login ''alice'' ''secret1'')]"
      and t = r_alice and ev = env3]
  note t2 = register_unique[where u = "''alice''" and p = "''secret2''"
      and rs = "[(env1, Register ''alice'' ''secret1''), (env2, Register ''alice'' ''secret2'')]"
      and k = toy_pbkdf2 and s = f_init and rs' = "[]" and t = r_init and ev = env3]
  from t1[THEN conjunct2, THEN conjunct2, THEN conjunct1, THEN mp, OF f] v
  have c1: "f_handle toy_pbkdf2 env3
        (snd (f_run toy_pbkdf2 f_alice [(env2, Login ''alice'' ''secret1'')]))
        (Register ''alice'' ''secret2'') =
       ((409, BError ''User exists''),
        snd (f_run toy_pbkdf2 f_alice [(env2, Login ''alice'' ''secret1'')]))"
    by simp
  from t1[THEN conjunct2, THEN conjunct2, THEN conjunct2, THEN mp, OF r] v
  have c2: "r_handle toy_pbkdf2 env3
        (snd (r_run toy_pbkdf2 r_alice [(env2, Login ''alice'' ''secret1'')]))
        (Register ''alice'' ''secret2'') =
       ((409, BError ''User exists''),
        snd (r_run toy_pbkdf2 r_alice [(env2, Login ''alice'' ''secret1'')]))"
    by simp
  note c3 = t2[THEN conjunct1]
  have c4: "map fst (fst (f_run toy_pbkdf2 f_init
           [(env1, Register ''alice'' ''secret1''), (env2, Register ''alice'' ''secret2'')])) =
       [201, 409]"
    by (simp add: eval_defs)
  show ?thesis
    by (intro conjI) (rule f r c1 c2 c3 c4)+
qed

text \<open>Claim C3 as the specification states it fails at a later registration with a
  password of fewer than six characters: alice has her user record, and her registration
  with the password \<open>short\<close> is answered 400 \<open>Invalid username or password\<close> by
  both servers, not 409.\<close>

theorem register_unique_counterexample:
  "f_users f_alice ''alice'' \<noteq> None
   \<and> f_register toy_pbkdf2 env3 f_alice ''alice'' ''short'' =
       ((400, BError ''Invalid username or password''), f_alice)
   \<and> r_users r_alice ''alice'' \<noteq> None
   \<and> r_register toy_pbkdf2 env3 r_alice ''alice'' ''short'' =
       ((400, BError ''Invalid username or password''), r_alice)"
  by (simp add: f_alice_users r_users_def r_alice_pool f_register_def r_register_def
      isValidPassword_def)

section \<open>Claim C4: registration and login\<close>

text \<open>
  Claim C4 at the username \<open>constructor\<close>, which \<open>isValidUser\<close> accepts. On the
  file-backed server with an empty user file, \<^verbatim>\<open>users["constructor"]\<close> is the
  function that every object inherits, so the registration is answered 409
  \<open>User exists\<close> and stores nothing, and the login that follows is answered 500
  \<open>Server error\<close>. The relational server answers 201 and then 200.
\<close>

theorem register_login_prototype_name:
  "isValidUser ''constructor'' \<and> isValidPassword ''secret1''
   \<and> f_users f_init ''constructor'' = None
   \<and> f_register toy_pbkdf2 env1 f_init ''constructor'' ''secret1'' =
       ((409, BError ''User exists''), f_init)
   \<and> f_login toy_pbkdf2 env2 f_init ''constructor'' ''secret1'' =
       ((500, BError ''Server error''), f_init)
   \<and> fst (r_register toy_pbkdf2 env1 r_init ''constructor'' ''secret1'') = (201, BOk)
   \<and> fst (r_login toy_pbkdf2 env2
            (snd (r_register toy_pbkdf2 env1 r_init ''constructor'' ''secret1''))
            ''constructor'' ''secret1'') = (200, BSession ''70ce'' ''constructor'')"
  by (simp add: valid_constructor valid_alice f_register_def f_login_def users_get_def
      object_prototype_keys_def f_init_def r_register_def r_login_def r_init_def Let_def
      verifyPassword_def hashPassword_def env2_def pg_text_def)

section \<open>Claim C5: sessions expire lazily\<close>

text \<open>
  Claim C5, as the code has it. A token that a login issued at time \<open>now_ms ev\<close>
  resolves to the user who logged in at every check up to and including the instant
  \<open>now_ms ev + TOKEN_TTL_MS\<close>, and the session map is left as it is; at every later
  check it resolves to nothing and its entry is deleted from the session map. Both
  servers share \<open>getAuth\<close>, whose test is \<^verbatim>\<open>sess.expires < Date.now()\<close>.
  Accordingly \<^verbatim>\<open>GET /api/me\<close> with the token answers 200 with the username up to
  that instant and leaves the state as it is, and answers 401 \<open>Unauthorized\<close> after
  it, with the token's session deleted.
\<close>

theorem session_expiry:
  assumes "token \<noteq> []"
  shows "(f_login k ev s u p = ((200, BSession token u'), s') \<longrightarrow>
           getAuth (f_sessions s') (''Bearer '' @ token) t' =
             (if t' \<le> now_ms ev + TOKEN_TTL_MS then (Some u', f_sessions s')
              else (None, (f_sessions s')(token := None)))
           \<and> f_me ev' s' (''Bearer '' @ token) =
             (if now_ms ev' \<le> now_ms ev + TOKEN_TTL_MS then ((200, BMe u'), s')
              else ((401, BError ''Unauthorized''),
                    s'\<lparr>f_sessions := (f_sessions s')(token := None)\<rparr>)))
       \<and> (r_login k ev r u p = ((200, BSession token u'), r') \<longrightarrow>
           getAuth (r_sessions r') (''Bearer '' @ token) t' =
             (if t' \<le> now_ms ev + TOKEN_TTL_MS then (Some u', r_sessions r')
              else (None, (r_sessions r')(token := None)))
           \<and> r_me ev' r' (''Bearer '' @ token) =
             (if now_ms ev' \<le> now_ms ev + TOKEN_TTL_MS then ((200, BMe u'), r')
              else ((401, BError ''Unauthorized''),
                    r'\<lparr>r_sessions := (r_sessions r')(token := None)\<rparr>)))"
proof (intro conjI impI)
  assume a: "f_login k ev s u p = ((200, BSession token u'), s')"
  from f_login_200[OF a] have uu: "u' = u"
    and s': "f_sessions s' token =
               Some \<lparr>sess_username = u, sess_expires = now_ms ev + TOKEN_TTL_MS\<rparr>"
    by auto
  have g: "getAuth (f_sessions s') (''Bearer '' @ token) x =
             (if x \<le> now_ms ev + TOKEN_TTL_MS then (Some u', f_sessions s')
              else (None, (f_sessions s')(token := None)))" for x
    using getAuth_issued[of token "f_sessions s'" _ x, OF assms s'] uu by simp
  show "getAuth (f_sessions s') (''Bearer '' @ token) t' =
             (if t' \<le> now_ms ev + TOKEN_TTL_MS then (Some u', f_sessions s')
              else (None, (f_sessions s')(token := None)))"
    by (rule g)
  show "f_me ev' s' (''Bearer '' @ token) =
             (if now_ms ev' \<le> now_ms ev + TOKEN_TTL_MS then ((200, BMe u'), s')
              else ((401, BError ''Unauthorized''),
                    s'\<lparr>f_sessions := (f_sessions s')(token := None)\<rparr>))"
    by (simp only: me_after_auth g) simp
next
  assume a: "r_login k ev r u p = ((200, BSession token u'), r')"
  from r_login_200[OF a] have uu: "u' = u"
    and s': "r_sessions r' token =
               Some \<lparr>sess_username = u, sess_expires = now_ms ev + TOKEN_TTL_MS\<rparr>"
    by auto
  have g: "getAuth (r_sessions r') (''Bearer '' @ token) x =
             (if x \<le> now_ms ev + TOKEN_TTL_MS then (Some u', r_sessions r')
              else (None, (r_sessions r')(token := None)))" for x
    using getAuth_issued[of token "r_sessions r'" _ x, OF assms s'] uu by simp
  show "getAuth (r_sessions r') (''Bearer '' @ token) t' =
             (if t' \<le> now_ms ev + TOKEN_TTL_MS then (Some u', r_sessions r')
              else (None, (r_sessions r')(token := None)))"
    by (rule g)
  show "r_me ev' r' (''Bearer '' @ token) =
             (if now_ms ev' \<le> now_ms ev + TOKEN_TTL_MS then ((200, BMe u'), r')
              else ((401, BError ''Unauthorized''),
                    r'\<lparr>r_sessions := (r_sessions r')(token := None)\<rparr>))"
    by (simp only: me_after_auth g) simp
qed

text \<open>The theorem at alice's token, one millisecond before the end of the 24 hours
  (86401999) and one millisecond after it (86402001), on both servers.\<close>

theorem session_expiry_witness:
  "''70ce'' \<noteq> []
   \<and> f_login toy_pbkdf2 env2 f_alice ''alice'' ''secret1'' =
       ((200, BSession ''70ce'' ''alice''), f_alice_in)
   \<and> getAuth (f_sessions f_alice_in) ''Bearer 70ce'' 86401999 =
       (Some ''alice'', f_sessions f_alice_in)
   \<and> getAuth (f_sessions f_alice_in) ''Bearer 70ce'' 86402001 =
       (None, (f_sessions f_alice_in)(''70ce'' := None))
   \<and> f_me (env2\<lparr>now_ms := 86401999\<rparr>) f_alice_in ''Bearer 70ce'' =
       ((200, BMe ''alice''), f_alice_in)
   \<and> f_me (env2\<lparr>now_ms := 86402001\<rparr>) f_alice_in ''Bearer 70ce'' =
       ((401, BError ''Unauthorized''),
        f_alice_in\<lparr>f_sessions := (f_sessions f_alice_in)(''70ce'' := None)\<rparr>)
   \<and> r_login toy_pbkdf2 env2 r_alice ''alice'' ''secret1'' =
       ((200, BSession ''70ce'' ''alice''), r_alice_in)
   \<and> getAuth (r_sessions r_alice_in) ''Bearer 70ce'' 86401999 =
       (Some ''alice'', r_sessions r_alice_in)
   \<and> getAuth (r_sessions r_alice_in) ''Bearer 70ce'' 86402001 =
       (None, (r_sessions r_alice_in)(''70ce'' := None))
   \<and> r_me (env2\<lparr>now_ms := 86401999\<rparr>) r_alice_in ''Bearer 70ce'' =
       ((200, BMe ''alice''), r_alice_in)
   \<and> r_me (env2\<lparr>now_ms := 86402001\<rparr>) r_alice_in ''Bearer 70ce'' =
       ((401, BError ''Unauthorized''),
        r_alice_in\<lparr>r_sessions := (r_sessions r_alice_in)(''70ce'' := None)\<rparr>)"
proof -
  have ne: "''70ce'' \<noteq> []" by simp
  note t = session_expiry[OF ne, where k = toy_pbkdf2 and ev = env2 and s = f_alice
      and u = "''alice''" and p = "''secret1''" and u' = "''alice''" and s' = f_alice_in
      and r = r_alice and r' = r_alice_in]
  note f = t[THEN conjunct1, THEN mp, OF f_login_alice]
  note r = t[THEN conjunct2, THEN mp, OF r_login_alice]
  have e: "now_ms env2 + TOKEN_TTL_MS = 86402000"
    by (simp add: env2_def TOKEN_TTL_MS_def)
  from f[of 86401999 "env2\<lparr>now_ms := 86401999\<rparr>"] f[of 86402001 "env2\<lparr>now_ms := 86402001\<rparr>"]
    r[of 86401999 "env2\<lparr>now_ms := 86401999\<rparr>"] r[of 86402001 "env2\<lparr>now_ms := 86402001\<rparr>"]
    f_login_alice r_login_alice
  show ?thesis
    by (simp add: e)
qed

text \<open>Claim C5 as the specification states it fails at the instant \<open>t + 24h\<close> itself:
  the token that alice was issued at time 2000 still resolves at time 2000 + 86400000,
  and \<^verbatim>\<open>GET /api/me\<close> is answered 200 then.\<close>

theorem session_expiry_counterexample:
  "f_login toy_pbkdf2 env2 f_alice ''alice'' ''secret1'' =
     ((200, BSession ''70ce'' ''alice''), f_alice_in)
   \<and> now_ms env2 = 2000
   \<and> fst (getAuth (f_sessions f_alice_in) ''Bearer 70ce'' (2000 + 24 * 60 * 60 * 1000))
       = Some ''alice''
   \<and> fst (f_me (env2\<lparr>now_ms := 2000 + 24 * 60 * 60 * 1000\<rparr>) f_alice_in ''Bearer 70ce'')
       = (200, BMe ''alice'')"
proof -
  have "now_ms env2 = 2000" by (simp add: env2_def)
  moreover have "fst (getAuth (f_sessions f_alice_in) ''Bearer 70ce''
      (2000 + 24 * 60 * 60 * 1000)) = Some ''alice''"
    by (simp add: f_alice_in_fields getAuth_def bearer_def)
  moreover have "fst (f_me (env2\<lparr>now_ms := 2000 + 24 * 60 * 60 * 1000\<rparr>) f_alice_in
      ''Bearer 70ce'') = (200, BMe ''alice'')"
    by (simp add: f_me_def f_alice_in_fields getAuth_def bearer_def)
  ultimately show ?thesis using f_login_alice by simp
qed

section \<open>Claim C6: updating an entry\<close>

text \<open>
  Claim C6 on the relational server, at two requests of alice after the two-user run.
  Her update of her entry with the payload \<^verbatim>\<open>{"note": ""}\<close> (\<open>clear_note\<close>) is
  answered 200 and the note of the row is still \<open>old\<close>: the \<^verbatim>\<open>SET\<close> list takes a
  field only when its value is truthy, so a field that is present with the empty string
  is not merged. The file-backed server stores the empty note for the same request. Her
  update with the id \<open>id-9\<close>, for which she owns no entry, is answered 500
  \<open>Database error\<close> and not 404, because the text is no UUID and the query fails; the
  file-backed server answers 404 \<open>Not found\<close>.
\<close>

theorem update_skips_empty_field:
  "fst (getAuth (r_sessions r_two) ''Bearer 70ce'' (now_ms env7)) = Some ''alice''
   \<and> map (\<lambda>r. (r_id r, r_owner r, r_note r)) (r_rows r_two) =
       [(''a0000000-0000-4000-8000-000000000005'', ''alice'', Some ''old''), (''a0000000-0000-4000-8000-000000000006'', ''bob'', None)]
   \<and> b_note clear_note = Some ''''
   \<and> fst (r_updateEntry env7 r_two ''Bearer 70ce'' ''a0000000-0000-4000-8000-000000000005'' (Some clear_note)) =
       (200, BEntry
          \<lparr>r_id = ''a0000000-0000-4000-8000-000000000005'', r_owner = ''alice'', r_url = ''https://x.com'', r_username = ''a'',
           r_password_encrypted = ''ct1'', r_favicon_url = None, r_note = Some ''old'',
           r_tags = Some [''work''], r_created_at = 5000, r_updated_at = 7000\<rparr>)
   \<and> map (\<lambda>r. (r_id r, r_owner r, r_note r))
        (r_rows (snd (r_updateEntry env7 r_two ''Bearer 70ce'' ''a0000000-0000-4000-8000-000000000005'' (Some clear_note)))) =
       [(''a0000000-0000-4000-8000-000000000005'', ''alice'', Some ''old''), (''a0000000-0000-4000-8000-000000000006'', ''bob'', None)]
   \<and> fst (getAuth (f_sessions f_two) ''Bearer 70ce'' (now_ms env7)) = Some ''alice''
   \<and> fst (fst (f_updateEntry env7 f_two ''Bearer 70ce'' ''a0000000-0000-4000-8000-000000000005''
                  (Some (to_obj clear_note)))) = 200
   \<and> map (\<lambda>e. (e ''id'', e ''note''))
        (f_owned (snd (f_updateEntry env7 f_two ''Bearer 70ce'' ''a0000000-0000-4000-8000-000000000005''
           (Some (to_obj clear_note)))) ''alice'') =
       [(Some (JStr ''a0000000-0000-4000-8000-000000000005''), Some (JStr ''''))]
   \<and> r_updateEntry env7 r_two ''Bearer 70ce'' ''id-9'' (Some set_note) =
       ((500, BError ''Database error''), r_two)
   \<and> fst (f_updateEntry env7 f_two ''Bearer 70ce'' ''id-9'' (Some (to_obj set_note))) =
       (404, BError ''Not found'')"
proof -
  note ru = r_update_effect[OF r_two_alice r_two_some uuid_in_examples(1), where u = clear_note]
  have 1: "map (\<lambda>r. (r_id r, r_owner r, r_note r)) (r_rows r_two) =
       [(''a0000000-0000-4000-8000-000000000005'', ''alice'', Some ''old''), (''a0000000-0000-4000-8000-000000000006'', ''bob'', None)]"
    by (simp add: r_two_rows row_x row_y)
  have 2: "b_note clear_note = Some ''''"
    by (simp add: clear_note_fields)
  have 3: "fst (r_updateEntry env7 r_two ''Bearer 70ce'' ''a0000000-0000-4000-8000-000000000005'' (Some clear_note)) =
       (200, BEntry
          \<lparr>r_id = ''a0000000-0000-4000-8000-000000000005'', r_owner = ''alice'', r_url = ''https://x.com'', r_username = ''a'',
           r_password_encrypted = ''ct1'', r_favicon_url = None, r_note = Some ''old'',
           r_tags = Some [''work''], r_created_at = 5000, r_updated_at = 7000\<rparr>)"
    by (simp add: ru(2) clear_note_params r_two_rows row_x row_y r_set_def clear_note_fields
        truthy_text_def env7_fields)
  have 4: "map (\<lambda>r. (r_id r, r_owner r, r_note r))
        (r_rows (snd (r_updateEntry env7 r_two ''Bearer 70ce'' ''a0000000-0000-4000-8000-000000000005'' (Some clear_note)))) =
       [(''a0000000-0000-4000-8000-000000000005'', ''alice'', Some ''old''), (''a0000000-0000-4000-8000-000000000006'', ''bob'', None)]"
    by (simp add: ru(1) clear_note_params r_two_rows row_x row_y r_set_def clear_note_fields
        truthy_text_def env7_fields)
  have 5: "fst (fst (f_updateEntry env7 f_two ''Bearer 70ce'' ''a0000000-0000-4000-8000-000000000005''
                  (Some (to_obj clear_note)))) = 200"
    by (simp add: f_update_effect(2)[OF f_two_alice] f_two_owned entry_x_fields)
  have 6: "map (\<lambda>e. (e ''id'', e ''note''))
        (f_owned (snd (f_updateEntry env7 f_two ''Bearer 70ce'' ''a0000000-0000-4000-8000-000000000005''
           (Some (to_obj clear_note)))) ''alice'') =
       [(Some (JStr ''a0000000-0000-4000-8000-000000000005''), Some (JStr ''''))]"
    by (simp add: f_update_effect(1)[OF f_two_alice] f_two_owned entry_x_fields f_merge_apply
        body_or_empty_def to_obj_clear_note)
  have 7: "r_updateEntry env7 r_two ''Bearer 70ce'' ''id-9'' (Some set_note) =
       ((500, BError ''Database error''), r_two)"
    by (rule r_update_refused[OF r_two_alice r_two_some]) (simp add: uuid_in_examples)
  have 8: "fst (f_updateEntry env7 f_two ''Bearer 70ce'' ''id-9'' (Some (to_obj set_note))) =
       (404, BError ''Not found'')"
    by (simp add: f_update_effect(2)[OF f_two_alice] f_two_owned entry_x_fields)
  from r_two_alice f_two_alice 1 2 3 4 5 6 7 8 show ?thesis by simp
qed

section \<open>Claim C7: listing the categories\<close>

text \<open>
  Claim C7 on the file-backed server, at alice after the two-user run. Her only entry
  carries the tag \<open>work\<close>, and listCategories answers with no category at all: the
  handler collects the property \<^verbatim>\<open>category\<close> of the entries, which addEntry never
  writes, and does not read \<^verbatim>\<open>tags\<close>. The relational server, for the same run,
  answers with \<open>work\<close>.
\<close>

theorem file_categories_ignore_tags:
  "fst (getAuth (f_sessions f_two) ''Bearer 70ce'' (now_ms env7)) = Some ''alice''
   \<and> map (\<lambda>e. (e ''tags'', e ''category'')) (f_owned f_two ''alice'') =
       [(Some (JArr [JStr ''work'']), None)]
   \<and> fst (f_listCategories env7 f_two ''Bearer 70ce'') = (200, BCategories [])
   \<and> fst (getAuth (r_sessions r_two) ''Bearer 70ce'' (now_ms env7)) = Some ''alice''
   \<and> map r_tags (owned ''alice'' (r_rows r_two)) = [Some [''work'']]
   \<and> fst (r_listCategories env7 r_two ''Bearer 70ce'') = (200, BCategories [JStr ''work''])"
proof -
  have 1: "map (\<lambda>e. (e ''tags'', e ''category'')) (f_owned f_two ''alice'') =
       [(Some (JArr [JStr ''work'']), None)]"
    by (simp add: f_two_owned entry_x_fields)
  have 2: "fst (f_listCategories env7 f_two ''Bearer 70ce'') = (200, BCategories [])"
    by (simp add: f_listCategories_effect(1)[OF f_two_alice] f_two_owned entry_x_fields
        file_categories_def)
  have 3: "map r_tags (owned ''alice'' (r_rows r_two)) = [Some [''work'']]"
    by (simp add: r_two_rows row_x row_y owned_def)
  have 4: "fst (r_listCategories env7 r_two ''Bearer 70ce'') =
       (200, BCategories [JStr ''work''])"
    by (simp add: r_listCategories_effect[OF r_two_alice r_two_some] r_two_rows row_x row_y
        db_categories_def owned_def row_tags_def)
  from f_two_alice r_two_alice 1 2 3 4 show ?thesis by simp
qed

section \<open>Claim C8: deleting a category\<close>

text \<open>
  Claim C8 at the category \<open>work\<close> after the two-user run, in which alice's entry
  carries the tag \<open>work\<close> and bob's entry carries no tag. On the file-backed server
  alice's deleteCategory of \<open>work\<close> is answered 200 and her vault is what it was, the
  tag still on her entry: the handler compares the property \<^verbatim>\<open>category\<close> and never
  touches \<^verbatim>\<open>tags\<close>. The relational server removes the tag for the same request. On
  the relational server bob's deleteCategory of \<open>work\<close>, which none of his entries
  carries, is answered 200 and moves \<^verbatim>\<open>updated_at\<close> of his row from 6000 to 7000: the
  \<^verbatim>\<open>UPDATE\<close> sets \<^verbatim>\<open>updated_at\<close> on every row of the owner. The file-backed server
  leaves bob's vault as it was for the same request.
\<close>

theorem delete_category_misses:
  "fst (getAuth (f_sessions f_two) ''Bearer 70ce'' (now_ms env7)) = Some ''alice''
   \<and> map (\<lambda>e. e ''tags'') (f_owned f_two ''alice'') = [Some (JArr [JStr ''work''])]
   \<and> fst (f_deleteCategory env7 f_two ''Bearer 70ce'' ''work'') = (200, BOk)
   \<and> f_owned (snd (f_deleteCategory env7 f_two ''Bearer 70ce'' ''work'')) ''alice'' =
       f_owned f_two ''alice''
   \<and> fst (getAuth (r_sessions r_two) ''Bearer 70ce'' (now_ms env7)) = Some ''alice''
   \<and> map (\<lambda>r. (r_owner r, r_tags r, r_updated_at r)) (r_rows r_two) =
       [(''alice'', Some [''work''], 5000), (''bob'', Some [], 6000)]
   \<and> fst (r_deleteCategory env7 r_two ''Bearer 70ce'' ''work'') = (200, BOk)
   \<and> map (\<lambda>r. (r_owner r, r_tags r, r_updated_at r))
        (r_rows (snd (r_deleteCategory env7 r_two ''Bearer 70ce'' ''work''))) =
       [(''alice'', Some [], 7000), (''bob'', Some [], 6000)]
   \<and> fst (getAuth (r_sessions r_two) ''Bearer b0b5'' (now_ms env7)) = Some ''bob''
   \<and> fst (r_deleteCategory env7 r_two ''Bearer b0b5'' ''work'') = (200, BOk)
   \<and> map (\<lambda>r. (r_owner r, r_tags r, r_updated_at r))
        (r_rows (snd (r_deleteCategory env7 r_two ''Bearer b0b5'' ''work''))) =
       [(''alice'', Some [''work''], 5000), (''bob'', Some [], 7000)]
   \<and> fst (getAuth (f_sessions f_two) ''Bearer b0b5'' (now_ms env7)) = Some ''bob''
   \<and> fst (f_deleteCategory env7 f_two ''Bearer b0b5'' ''work'') = (200, BOk)
   \<and> f_owned (snd (f_deleteCategory env7 f_two ''Bearer b0b5'' ''work'')) ''bob'' =
       f_owned f_two ''bob''"
proof -
  note fa = f_deleteCategory_effect[OF f_two_alice, where c = "''work''"]
  note fb = f_deleteCategory_effect[OF f_two_bob, where c = "''work''"]
  note ra = r_deleteCategory_effect[OF r_two_alice r_two_some pg_names(3)]
  note rb = r_deleteCategory_effect[OF r_two_bob r_two_some pg_names(3)]
  have 1: "map (\<lambda>e. e ''tags'') (f_owned f_two ''alice'') = [Some (JArr [JStr ''work''])]"
    by (simp add: f_two_owned entry_x_fields)
  have 2: "f_owned (snd (f_deleteCategory env7 f_two ''Bearer 70ce'' ''work'')) ''alice'' =
       f_owned f_two ''alice''"
    by (simp add: fa(2) f_two_owned f_clear_category_def entry_x_fields)
  have 3: "map (\<lambda>r. (r_owner r, r_tags r, r_updated_at r)) (r_rows r_two) =
       [(''alice'', Some [''work''], 5000), (''bob'', Some [], 6000)]"
    by (simp add: r_two_rows row_x row_y)
  have 4: "map (\<lambda>r. (r_owner r, r_tags r, r_updated_at r))
        (r_rows (snd (r_deleteCategory env7 r_two ''Bearer 70ce'' ''work''))) =
       [(''alice'', Some [], 7000), (''bob'', Some [], 6000)]"
    by (simp add: ra(2) r_two_rows row_x row_y r_strip_def env7_fields)
  have 5: "map (\<lambda>r. (r_owner r, r_tags r, r_updated_at r))
        (r_rows (snd (r_deleteCategory env7 r_two ''Bearer b0b5'' ''work''))) =
       [(''alice'', Some [''work''], 5000), (''bob'', Some [], 7000)]"
    by (simp add: rb(2) r_two_rows row_x row_y r_strip_def env7_fields)
  have 6: "f_owned (snd (f_deleteCategory env7 f_two ''Bearer b0b5'' ''work'')) ''bob'' =
       f_owned f_two ''bob''"
    by (simp add: fb(2) f_two_owned f_clear_category_def entry_y_fields)
  from f_two_alice f_two_bob r_two_alice r_two_bob 1 2 3 4 5 6 fa(1) fb(1) ra(1) rb(1)
  show ?thesis by simp
qed

section \<open>Claim C9: the identity of an entry under update\<close>

text \<open>
  Claim C9 at the payload \<open>rename\<close> on the file-backed server. Alice's entry has the id
  \<open>id-5\<close>, the owner \<open>alice\<close> and its creation time; her update of \<open>id-5\<close> with
  the payload is answered 200, and the stored entry then has the payload's id, owner and
  creation time: the spread \<^verbatim>\<open>{ ...e, ...updates, updatedAt }\<close> protects
  \<^verbatim>\<open>updatedAt\<close> only.
\<close>

theorem update_overwrites_identity:
  "map (\<lambda>e. (e ''id'', e ''owner'', e ''createdAt'')) (f_owned f_two ''alice'') =
     [(Some (JStr ''a0000000-0000-4000-8000-000000000005''), Some (JStr ''alice''), Some (JStr ''2026-01-01T00:00:05.000Z''))]
   \<and> fst (fst (f_updateEntry env7 f_two ''Bearer 70ce'' ''a0000000-0000-4000-8000-000000000005'' (Some rename))) = 200
   \<and> map (\<lambda>e. (e ''id'', e ''owner'', e ''createdAt''))
        (f_owned (snd (f_updateEntry env7 f_two ''Bearer 70ce'' ''a0000000-0000-4000-8000-000000000005'' (Some rename)))
           ''alice'') =
     [(Some (JStr ''a0000000-0000-4000-8000-000000000006''), Some (JStr ''bob''), Some (JStr ''1999-12-31T00:00:00.000Z''))]"
  by (simp add: f_update_effect[OF f_two_alice] f_two_owned entry_x_fields f_merge_apply
      body_or_empty_def rename_def)

section \<open>Claim C10: the owner of a created entry\<close>



end
